theory Spec2Isabelle
  imports Main "HOL-Library.Sublist"
begin

section \<open>JavaScript values\<close>

text \<open>
  The converter (\<^verbatim>\<open>src/converter.js\<close>) is dynamically typed: the record a parser returns is
  an object literal whose properties hold strings, numbers, booleans or \<^verbatim>\<open>undefined\<close>, and the
  serializers read those properties with truthiness tests and template literals. The model
  keeps this: a value is a \<open>jsval\<close>, an object is a list of properties in insertion order.

  Strings are byte strings (a character outside ASCII is its UTF-8 bytes), so \<open>length\<close> is
  JavaScript's \<^verbatim>\<open>.length\<close> on ASCII text.

  A number is \<open>NaN\<close>, an integer \<open>Fin n\<close>, or \<open>Other s\<close>: some other double (a
  fraction, an infinity) of which only the rendering \<open>s\<close> that \<^verbatim>\<open>String(x)\<close> gives is kept.
  \<open>Fin n\<close> stands for the double of the same value; this is exact below \<open>2^53\<close>.
\<close>

datatype jsnum = NaN | Fin int | Other string

datatype jsval =
    Undefined
  | Null
  | Bool bool
  | Num jsnum
  | Str string
  | Arr "jsval list"
  | Obj "(string \<times> jsval) list"

type_synonym jsobj = "(string \<times> jsval) list"

text \<open>The errors the code throws or lets through; each carries its \<^verbatim>\<open>message\<close>.\<close>

datatype js_error = Error string | TypeError string | URIError string

fun message :: "js_error \<Rightarrow> string" where
  "message (Error m) = m"
| "message (TypeError m) = m"
| "message (URIError m) = m"

text \<open>Truthiness, as \<^verbatim>\<open>if (x)\<close>, \<^verbatim>\<open>!!x\<close> and \<^verbatim>\<open>x || y\<close> read it.\<close>

fun truthy :: "jsval \<Rightarrow> bool" where
  "truthy Undefined = False"
| "truthy Null = False"
| "truthy (Bool b) = b"
| "truthy (Num NaN) = False"
| "truthy (Num (Fin n)) = (n \<noteq> 0)"
| "truthy (Num (Other s)) = True"
| "truthy (Str s) = (s \<noteq> [])"
| "truthy (Arr xs) = True"
| "truthy (Obj kvs) = True"

definition js_or :: "jsval \<Rightarrow> jsval \<Rightarrow> jsval" where
  "js_or a b = (if truthy a then a else b)"

text \<open>Decimal rendering of an integer, as \<^verbatim>\<open>String(n)\<close> gives it.\<close>

definition digit_char :: "nat \<Rightarrow> char" where
  "digit_char d = char_of (48 + d)"

fun nat_to_string :: "nat \<Rightarrow> string" where
  "nat_to_string n =
     (if n < 10 then [digit_char n] else nat_to_string (n div 10) @ [digit_char (n mod 10)])"

declare nat_to_string.simps [simp del]

definition int_to_string :: "int \<Rightarrow> string" where
  "int_to_string i = (if i < 0 then CHR ''-'' # nat_to_string (nat (- i)) else nat_to_string (nat i))"

fun join :: "string \<Rightarrow> string list \<Rightarrow> string" where
  "join sep [] = []"
| "join sep [x] = x"
| "join sep (x # y # ys) = x @ sep @ join sep (y # ys)"

text \<open>
  \<^verbatim>\<open>String(x)\<close>, the conversion a template literal \<^verbatim>\<open>`${x}`\<close> and \<^verbatim>\<open>parseInt(x, 10)\<close>
  apply. An array joins its elements with commas (\<^verbatim>\<open>null\<close> and \<^verbatim>\<open>undefined\<close> as the
  empty string); an object is taken to be a plain one, without a \<^verbatim>\<open>toString\<close> or
  \<^verbatim>\<open>valueOf\<close> property of its own.
\<close>

fun toString :: "jsval \<Rightarrow> string" where
  "toString Undefined = ''undefined''"
| "toString Null = ''null''"
| "toString (Bool b) = (if b then ''true'' else ''false'')"
| "toString (Num NaN) = ''NaN''"
| "toString (Num (Fin n)) = int_to_string n"
| "toString (Num (Other s)) = s"
| "toString (Str s) = s"
| "toString (Arr xs) =
     join '','' (map (\<lambda>x. if x = Undefined \<or> x = Null then [] else toString x) xs)"
| "toString (Obj kvs) = ''[object Object]''"

subsection \<open>Objects\<close>

text \<open>
  \<^verbatim>\<open>o.k\<close> is \<open>js_get o k\<close>: \<^verbatim>\<open>undefined\<close> when the object has no such property.
  \<^verbatim>\<open>o.k = v\<close> is \<open>obj_set o k v\<close>: a property that exists keeps its place, a new one goes
  last. An object literal sets its properties from left to right, so a key written twice
  holds the later value.
\<close>

definition js_get :: "jsobj \<Rightarrow> string \<Rightarrow> jsval" where
  "js_get ob k = (case map_of ob k of Some v \<Rightarrow> v | None \<Rightarrow> Undefined)"

definition obj_set :: "jsobj \<Rightarrow> string \<Rightarrow> jsval \<Rightarrow> jsobj" where
  "obj_set ob k v =
     (if k \<in> set (map fst ob)
      then map (\<lambda>kv. if fst kv = k then (k, v) else kv) ob
      else ob @ [(k, v)])"

definition obj_lit :: "(string \<times> jsval) list \<Rightarrow> jsobj" where
  "obj_lit kvs = foldl (\<lambda>ob kv. obj_set ob (fst kv) (snd kv)) [] kvs"

text \<open>
  A property read on a value that came out of \<^verbatim>\<open>JSON.parse\<close>: it throws on \<^verbatim>\<open>null\<close>, and is
  \<^verbatim>\<open>undefined\<close> on a number, a boolean, a string or an array for the names the code reads
  (none of them is a property of those prototypes).
\<close>

fun val_get :: "jsval \<Rightarrow> string \<Rightarrow> jsval" where
  "val_get (Obj kvs) k = js_get kvs k"
| "val_get v k = Undefined"

section \<open>String operations\<close>

definition startsWith :: "string \<Rightarrow> string \<Rightarrow> bool" where
  "startsWith s p = prefix p s"

text \<open>\<^verbatim>\<open>s.split(c)\<close> for a one-character separator: never the empty array.\<close>

fun split_on :: "char \<Rightarrow> string \<Rightarrow> string list" where
  "split_on sep [] = [[]]"
| "split_on sep (c # cs) =
     (if c = sep then [] # split_on sep cs
      else (case split_on sep cs of [] \<Rightarrow> [[c]] | p # ps \<Rightarrow> (c # p) # ps))"

text \<open>
  Array destructuring \<^verbatim>\<open>const [a, b] = parts\<close>: \<open>first_of\<close> is \<open>a\<close> (the parts of a
  split are never empty, see \<open>split_on_not_Nil\<close>), \<open>second_of\<close> is \<open>b\<close>, \<^verbatim>\<open>undefined\<close>
  (\<open>None\<close>) when there is no second part.
\<close>

definition first_of :: "string list \<Rightarrow> string" where
  "first_of xs = (case xs of [] \<Rightarrow> [] | x # _ \<Rightarrow> x)"

definition second_of :: "string list \<Rightarrow> string option" where
  "second_of xs = (case xs of _ # y # _ \<Rightarrow> Some y | _ \<Rightarrow> None)"

text \<open>\<^verbatim>\<open>s.indexOf(c)\<close>: \<open>None\<close> is \<open>-1\<close>.\<close>

fun indexOf :: "string \<Rightarrow> char \<Rightarrow> nat option" where
  "indexOf [] c = None"
| "indexOf (x # xs) c =
     (if x = c then Some 0 else (case indexOf xs c of None \<Rightarrow> None | Some i \<Rightarrow> Some (Suc i)))"

definition substring :: "string \<Rightarrow> nat \<Rightarrow> nat \<Rightarrow> string" where
  "substring s a b = (if a \<le> b then take (b - a) (drop a s) else take (a - b) (drop b s))"

definition substring_from :: "string \<Rightarrow> nat \<Rightarrow> string" where
  "substring_from s a = drop a s"

text \<open>\<^verbatim>\<open>s.replace(pat, '')\<close> with a string pattern: the first occurrence is removed.\<close>

fun remove_first :: "string \<Rightarrow> string \<Rightarrow> string" where
  "remove_first pat [] = []"
| "remove_first pat (c # cs) =
     (if prefix pat (c # cs) then drop (length pat) (c # cs) else c # remove_first pat cs)"


text \<open>White space as \<^verbatim>\<open>trim\<close> and \<^verbatim>\<open>parseInt\<close> skip it, within ASCII.\<close>

definition is_space :: "char \<Rightarrow> bool" where
  "is_space c = (c \<in> set [CHR '' '', CHR 0x09, CHR 0x0A, CHR 0x0B, CHR 0x0C, CHR 0x0D])"

definition trim :: "string \<Rightarrow> string" where
  "trim s = rev (dropWhile is_space (rev (dropWhile is_space s)))"

definition is_digit :: "char \<Rightarrow> bool" where
  "is_digit c = ((48::nat) \<le> of_char c \<and> (of_char c :: nat) \<le> 57)"

definition digits_value :: "string \<Rightarrow> int" where
  "digits_value ds = foldl (\<lambda>a c. 10 * a + (int (of_char c) - 48)) 0 ds"

text \<open>
  \<^verbatim>\<open>parseInt(s, 10)\<close>: leading white space, an optional sign, then the longest run of
  decimal digits; \<open>NaN\<close> when that run is empty. What follows the digits is ignored.
\<close>

definition parseInt :: "string \<Rightarrow> jsnum" where
  "parseInt s =
     (let s1 = dropWhile is_space s;
          neg = (case s1 of [] \<Rightarrow> False | c # _ \<Rightarrow> c = CHR ''-'');
          s2 = (case s1 of [] \<Rightarrow> [] | c # r \<Rightarrow> if c = CHR ''-'' \<or> c = CHR ''+'' then r else s1);
          ds = takeWhile is_digit s2
      in if ds = [] then NaN
         else Fin (if neg then - digits_value ds else digits_value ds))"

definition isNaN :: "jsnum \<Rightarrow> bool" where
  "isNaN n = (n = NaN)"

section \<open>The platform\<close>

text \<open>
  Library functions the converter calls and does not define. The parsers and serializers
  take them as a parameter, so that what is proved holds whatever these functions return;
  \<open>node\<close> below is an executable instance used to run examples.
  \<^item> \<open>decodeURIComponent\<close>: \<open>None\<close> when it throws \<^verbatim>\<open>URIError\<close>;
  \<^item> \<open>base64_utf8\<close>: \<^verbatim>\<open>Buffer.from(s, 'base64').toString('utf8')\<close>, which never throws on
    a string;
  \<^item> \<open>JSON_parse\<close>: \<open>None\<close> when it throws \<^verbatim>\<open>SyntaxError\<close>;
  \<^item> \<open>URLSearchParams_get q k\<close>: \<^verbatim>\<open>new URLSearchParams(q).get(k)\<close>, \<open>None\<close> for \<^verbatim>\<open>null\<close>;
  \<^item> \<open>yaml_dump\<close>: \<^verbatim>\<open>yaml.dump(v, { indent: 2 })\<close> of js-yaml, which throws on values it
    cannot represent;
  \<^item> \<open>JSON_stringify\<close>: \<^verbatim>\<open>JSON.stringify(v, null, 2)\<close>.
\<close>

record platform =
  decodeURIComponent :: "string \<Rightarrow> string option"
  base64_utf8 :: "string \<Rightarrow> string"
  JSON_parse :: "string \<Rightarrow> jsval option"
  URLSearchParams_get :: "string \<Rightarrow> string \<Rightarrow> string option"
  yaml_dump :: "jsval \<Rightarrow> js_error + string"
  JSON_stringify :: "jsval \<Rightarrow> string"

definition uri_malformed :: js_error where
  "uri_malformed = URIError ''URI malformed''"

definition not_a_string :: "string \<Rightarrow> js_error" where
  "not_a_string what =
     TypeError (''Cannot read properties of undefined (reading '' @ [CHR 0x27] @ what @ [CHR 0x27] @ '')'')"


section \<open>Link parsers\<close>

text \<open>
  A query object \<^verbatim>\<open>params\<close> is a map from names to strings; \<^verbatim>\<open>params.k || d\<close> is
  \<open>param_or params k d\<close>. The names the parsers read are not properties of
  \<^verbatim>\<open>Object.prototype\<close>, so a name that was never assigned reads as \<^verbatim>\<open>undefined\<close>.
\<close>

type_synonym params = "string \<rightharpoonup> string"

definition param_or :: "params \<Rightarrow> string \<Rightarrow> string \<Rightarrow> string" where
  "param_or ps k d = (case ps k of None \<Rightarrow> d | Some v \<Rightarrow> if v = [] then d else v)"

definition allow_insecure :: "params \<Rightarrow> bool" where
  "allow_insecure ps = (ps ''allowInsecure'' = Some ''1'' \<or> ps ''allowInsecure'' = Some ''true'')"

text \<open>\<^verbatim>\<open>parseInt(x, 10)\<close> of a destructured part: \<^verbatim>\<open>undefined\<close> reads as the text "undefined".\<close>

definition parseInt_opt :: "string option \<Rightarrow> jsnum" where
  "parseInt_opt x = parseInt (case x of None \<Rightarrow> ''undefined'' | Some s \<Rightarrow> s)"

text \<open>
  The display name: \<^verbatim>\<open>try { name = decodeURIComponent(fragment) } catch { name = fragment }\<close>
  when the fragment is not empty, the scheme's placeholder otherwise.
\<close>

definition decode_name :: "platform \<Rightarrow> string \<Rightarrow> string \<Rightarrow> string" where
  "decode_name P fragment placeholder =
     (if fragment = [] then placeholder
      else (case decodeURIComponent P fragment of None \<Rightarrow> fragment | Some d \<Rightarrow> d))"

subsection \<open>vless\<close>

text \<open>The \<^verbatim>\<open>forEach\<close> over the pairs of the query; a \<^verbatim>\<open>URIError\<close> ends it.\<close>

fun vless_params :: "platform \<Rightarrow> string list \<Rightarrow> params \<Rightarrow> js_error + params" where
  "vless_params P [] ps = Inr ps"
| "vless_params P (pair # pairs) ps =
     (let kv = split_on CHR ''='' pair;
          key = first_of kv;
          val = (case second_of kv of None \<Rightarrow> [] | Some v \<Rightarrow> v)
      in if key = [] then vless_params P pairs ps
         else (case decodeURIComponent P key of
                 None \<Rightarrow> Inl uri_malformed
               | Some k \<Rightarrow>
                   (case decodeURIComponent P val of
                      None \<Rightarrow> Inl uri_malformed
                    | Some v \<Rightarrow> vless_params P pairs (ps(k \<mapsto> v)))))"

text \<open>
  The query text and the fragment of a vless link, as \<^verbatim>\<open>parseVLESS\<close> cuts them: the
  fragment is looked for only inside what follows the first \<^verbatim>\<open>?\<close>.
\<close>

definition vless_query :: "string option \<Rightarrow> string" where
  "vless_query paramString =
     (case paramString of
        None \<Rightarrow> []
      | Some s \<Rightarrow> if s = [] then [] else first_of (split_on CHR ''#'' s))"

definition vless_fragment :: "string option \<Rightarrow> string" where
  "vless_fragment paramString =
     (case paramString of
        None \<Rightarrow> []
      | Some s \<Rightarrow>
          if s = [] then []
          else (case second_of (split_on CHR ''#'' s) of None \<Rightarrow> [] | Some f \<Rightarrow> f))"

definition vless_record ::
  "string \<Rightarrow> string \<Rightarrow> string option \<Rightarrow> params \<Rightarrow> string \<Rightarrow> jsobj" where
  "vless_record uuid host port ps name =
     obj_lit
       [(''type'', Str ''vless''),
        (''uuid'', Str uuid),
        (''host'', Str host),
        (''port'', Num (parseInt_opt port)),
        (''security'', Str (param_or ps ''security'' ''none'')),
        (''flow'', Str (param_or ps ''flow'' [])),
        (''network'', Str (param_or ps ''type'' ''tcp'')),
        (''path'', Str (param_or ps ''path'' (if ps ''type'' = Some ''ws'' then ''/'' else []))),
        (''host_header'', Str (param_or ps ''host'' [])),
        (''sni'', Str (param_or ps ''sni'' (param_or ps ''host'' host))),
        (''fp'', Str (param_or ps ''fp'' [])),
        (''pbk'', Str (param_or ps ''pbk'' [])),
        (''sid'', Str (param_or ps ''sid'' [])),
        (''spx'', Str (param_or ps ''spx'' [])),
        (''alpn'', Str (param_or ps ''alpn'' [])),
        (''allowInsecure'', Bool (allow_insecure ps)),
        (''name'', Str name)]"

text \<open>
  \<open>vless_rest\<close> is \<^verbatim>\<open>rest\<close>, the second part of the split at \<^verbatim>\<open>@\<close>;
  \<open>vless_paramString\<close> is what follows the first \<^verbatim>\<open>?\<close> in it;
  \<open>vless_link_params\<close> is the object \<^verbatim>\<open>params\<close> the parser fills from the query.
\<close>

definition vless_rest :: "string \<Rightarrow> string option" where
  "vless_rest link = second_of (split_on CHR ''@'' (remove_first ''vless://'' link))"

definition vless_paramString :: "string \<Rightarrow> string option" where
  "vless_paramString link =
     (case vless_rest link of None \<Rightarrow> None | Some rest \<Rightarrow> second_of (split_on CHR ''?'' rest))"

definition vless_link_params :: "platform \<Rightarrow> string \<Rightarrow> js_error + params" where
  "vless_link_params P link =
     (let queryParams = vless_query (vless_paramString link)
      in if queryParams = [] then Inr Map.empty
         else vless_params P (split_on CHR ''&'' queryParams) Map.empty)"

definition parseVLESS :: "platform \<Rightarrow> string \<Rightarrow> js_error + jsobj" where
  "parseVLESS P link =
     (if \<not> startsWith link ''vless://'' then Inl (Error ''Bukan link VLESS'')
      else
        let clean = remove_first ''vless://'' link;
            userinfo = first_of (split_on CHR ''@'' clean);
            uuid = first_of (split_on CHR '':'' userinfo)
        in case vless_rest link of
             None \<Rightarrow> Inl (not_a_string ''split'')
           | Some rest \<Rightarrow>
               (let hostport = first_of (split_on CHR ''?'' rest);
                    hostparts = split_on CHR '':'' hostport;
                    host = first_of hostparts;
                    port = second_of hostparts;
                    fragmentName = vless_fragment (vless_paramString link)
                in case vless_link_params P link of
                     Inl e \<Rightarrow> Inl e
                   | Inr ps \<Rightarrow>
                       Inr (vless_record uuid host port ps
                              (decode_name P fragmentName ''VLESS Server''))))"

subsection \<open>vmess\<close>

text \<open>
  Everything after the prefix check runs inside one \<^verbatim>\<open>try\<close>, whose \<^verbatim>\<open>catch\<close> throws
  "Invalid VMess base64 JSON": a payload that is not JSON, and a payload that is the JSON
  \<^verbatim>\<open>null\<close> (reading \<^verbatim>\<open>obj.ps\<close> throws) end there. The object literal names \<^verbatim>\<open>type\<close> twice,
  first as \<^verbatim>\<open>'vmess'\<close> and then as \<^verbatim>\<open>obj.type || 'none'\<close>; the model lists both, in the
  source's order.
\<close>

definition vmess_name :: "platform \<Rightarrow> jsval \<Rightarrow> jsval" where
  "vmess_name P obj =
     (if truthy (val_get obj ''ps'')
      then (case decodeURIComponent P (toString (val_get obj ''ps'')) of
              None \<Rightarrow> val_get obj ''ps''
            | Some d \<Rightarrow> Str d)
      else Str ''VMess Server'')"

definition vmess_record :: "platform \<Rightarrow> jsval \<Rightarrow> jsobj" where
  "vmess_record P obj =
     obj_lit
       [(''type'', Str ''vmess''),
        (''uuid'', val_get obj ''id''),
        (''host'', val_get obj ''add''),
        (''port'', Num (parseInt (toString (val_get obj ''port'')))),
        (''alterId'', js_or (Num (parseInt (toString (val_get obj ''aid'')))) (Num (Fin 0))),
        (''security'', js_or (val_get obj ''sc'') (js_or (val_get obj ''cipher'') (Str ''auto''))),
        (''network'', js_or (val_get obj ''net'') (Str ''tcp'')),
        (''type'', js_or (val_get obj ''type'') (Str ''none'')),
        (''path'', js_or (val_get obj ''path'')
                     (Str (if val_get obj ''net'' = Str ''ws'' then ''/'' else []))),
        (''host_header'', js_or (val_get obj ''host'') (val_get obj ''add'')),
        (''sni'', js_or (val_get obj ''sni'') (js_or (val_get obj ''host'') (val_get obj ''add''))),
        (''tls'', Bool (val_get obj ''tls'' = Str ''tls'')),
        (''alpn'', js_or (val_get obj ''alpn'') (Str [])),
        (''fp'', js_or (val_get obj ''fp'') (Str [])),
        (''name'', vmess_name P obj)]"

definition parseVMess :: "platform \<Rightarrow> string \<Rightarrow> js_error + jsobj" where
  "parseVMess P link =
     (if \<not> startsWith link ''vmess://'' then Inl (Error ''Bukan link VMess'')
      else
        let base64 = remove_first ''vmess://'' link;
            jsonStr = base64_utf8 P base64
        in case JSON_parse P jsonStr of
             None \<Rightarrow> Inl (Error ''Invalid VMess base64 JSON'')
           | Some obj \<Rightarrow>
               if obj = Null \<or> obj = Undefined then Inl (Error ''Invalid VMess base64 JSON'')
               else Inr (vmess_record P obj))"

subsection \<open>trojan\<close>

fun trojan_params :: "platform \<Rightarrow> string list \<Rightarrow> params \<Rightarrow> js_error + params" where
  "trojan_params P [] ps = Inr ps"
| "trojan_params P (pair # pairs) ps =
     (if pair = [] then trojan_params P pairs ps
      else
        let kv = split_on CHR ''='' pair;
            key = first_of kv;
            val = (case second_of kv of None \<Rightarrow> [] | Some v \<Rightarrow> v)
        in if key = [] then trojan_params P pairs ps
           else (case decodeURIComponent P key of
                   None \<Rightarrow> Inl uri_malformed
                 | Some k \<Rightarrow>
                     (case decodeURIComponent P val of
                        None \<Rightarrow> Inl uri_malformed
                      | Some v \<Rightarrow> trojan_params P pairs (ps(k \<mapsto> v)))))"

text \<open>
  The three segments of a trojan link (user and server, query, fragment), cut at the
  first \<^verbatim>\<open>?\<close> and the first \<^verbatim>\<open>#\<close>, whichever order they come in.
\<close>

definition trojan_segments :: "string \<Rightarrow> string \<times> string \<times> string" where
  "trojan_segments cleanLink =
     (case (indexOf cleanLink CHR ''?'', indexOf cleanLink CHR ''#'') of
        (None, None) \<Rightarrow> (cleanLink, [], [])
      | (Some p, None) \<Rightarrow> (substring cleanLink 0 p, substring_from cleanLink (p + 1), [])
      | (None, Some f) \<Rightarrow> (substring cleanLink 0 f, [], substring_from cleanLink (f + 1))
      | (Some p, Some f) \<Rightarrow>
          if f > p
          then (substring cleanLink 0 p, substring cleanLink (p + 1) f,
                substring_from cleanLink (f + 1))
          else (substring cleanLink 0 p, substring_from cleanLink (p + 1), []))"

definition trojan_record :: "string \<Rightarrow> string \<Rightarrow> jsnum \<Rightarrow> params \<Rightarrow> string \<Rightarrow> jsobj" where
  "trojan_record password host port ps name =
     obj_lit
       [(''type'', Str ''trojan''),
        (''password'', Str password),
        (''host'', Str host),
        (''port'', Num port),
        (''security'', Str ''tls''),
        (''network'', Str (param_or ps ''type'' ''tcp'')),
        (''path'', Str (param_or ps ''path'' (if ps ''type'' = Some ''ws'' then ''/'' else []))),
        (''host_header'', Str (param_or ps ''host'' host)),
        (''sni'', Str (param_or ps ''sni'' (param_or ps ''host'' host))),
        (''alpn'', Str (param_or ps ''alpn'' [])),
        (''fp'', Str (param_or ps ''fp'' [])),
        (''allowInsecure'', Bool (allow_insecure ps)),
        (''name'', Str name)]"

definition parseTrojan :: "platform \<Rightarrow> string \<Rightarrow> js_error + jsobj" where
  "parseTrojan P link =
     (if \<not> startsWith link ''trojan://'' then Inl (Error ''Bukan link Trojan'')
      else
        let cleanLink = substring_from link (length ''trojan://'');
            segs = trojan_segments cleanLink;
            userinfo_and_serverinfo = fst segs;
            paramString = fst (snd segs);
            fragment = snd (snd segs);
            us = split_on CHR ''@'' userinfo_and_serverinfo;
            userinfo = first_of us
        in case second_of us of
             None \<Rightarrow> Inl (Error ''Invalid Trojan link format: Missing userinfo or serverinfo'')
           | Some serverinfo \<Rightarrow>
               if userinfo = [] \<or> serverinfo = []
               then Inl (Error ''Invalid Trojan link format: Missing userinfo or serverinfo'')
               else
                 let hostparts = split_on CHR '':'' serverinfo;
                     host = first_of hostparts;
                     port = parseInt_opt (second_of hostparts)
                 in if isNaN port then Inl (Error ''Invalid Trojan link format: Invalid port'')
                    else
                      (case (if paramString = [] then Inr Map.empty
                             else trojan_params P (split_on CHR ''&'' paramString) Map.empty) of
                         Inl e \<Rightarrow> Inl e
                       | Inr ps \<Rightarrow>
                           (case decodeURIComponent P userinfo of
                              None \<Rightarrow> Inl uri_malformed
                            | Some password \<Rightarrow>
                                Inr (trojan_record password host port ps
                                       (decode_name P fragment ''Trojan Server'')))))"

subsection \<open>shadowsocks\<close>

text \<open>
  The decoding of the user part stands inside a \<^verbatim>\<open>try\<close> whose \<^verbatim>\<open>catch\<close> would throw
  "Invalid Shadowsocks base64 encoding". Neither \<^verbatim>\<open>Buffer.from(s, 'base64')\<close> nor
  \<^verbatim>\<open>toString('utf8')\<close> nor \<^verbatim>\<open>split\<close> throws on a string, so that \<^verbatim>\<open>catch\<close> has no
  branch in the model. \<^verbatim>\<open>decoded.split(':', 2)\<close> keeps the first two parts; the password
  is \<^verbatim>\<open>undefined\<close> when the decoded text has no colon.
\<close>

definition ss_record ::
  "string \<Rightarrow> jsval \<Rightarrow> string \<Rightarrow> jsnum \<Rightarrow> string \<Rightarrow> string \<Rightarrow> string \<Rightarrow> string \<Rightarrow> string \<Rightarrow> jsobj" where
  "ss_record method password host port plugin plugin_opts obfs obfsHost name =
     obj_lit
       [(''type'', Str ''ss''),
        (''method'', Str method),
        (''password'', password),
        (''host'', Str host),
        (''port'', Num port),
        (''plugin'', Str plugin),
        (''plugin_opts'', Str plugin_opts),
        (''obfs'', Str obfs),
        (''obfsHost'', Str obfsHost),
        (''name'', Str name)]"

definition search_or_empty :: "platform \<Rightarrow> string \<Rightarrow> string \<Rightarrow> string" where
  "search_or_empty P q k = (case URLSearchParams_get P q k of None \<Rightarrow> [] | Some v \<Rightarrow> v)"

definition parseSS :: "platform \<Rightarrow> string \<Rightarrow> js_error + jsobj" where
  "parseSS P link =
     (if \<not> startsWith link ''ss://'' then Inl (Error ''Not a Shadowsocks link'')
      else
        let fragmentIndex = indexOf link CHR ''#'';
            fragment = (case fragmentIndex of None \<Rightarrow> [] | Some i \<Rightarrow> substring_from link (i + 1));
            clean = remove_first ''ss://''
                      (substring link 0 (case fragmentIndex of None \<Rightarrow> length link | Some i \<Rightarrow> i));
            parts = split_on CHR ''@'' clean;
            userinfo = first_of parts
        in case second_of parts of
             None \<Rightarrow> Inl (not_a_string ''split'')
           | Some hostport \<Rightarrow>
               (let hostparts = split_on CHR '':'' hostport;
                    host = first_of hostparts
                in case second_of hostparts of
                    None \<Rightarrow> Inl (not_a_string ''split'')
                  | Some portWithParams \<Rightarrow>
                      let pp = split_on CHR ''?'' portWithParams;
                          portPart = first_of pp;
                          paramParts = tl pp;
                          port = parseInt portPart;
                          decoded = base64_utf8 P userinfo;
                          mp = take 2 (split_on CHR '':'' decoded);
                          method = first_of mp;
                          password = (case second_of mp of None \<Rightarrow> Undefined | Some p \<Rightarrow> Str p);
                          q = join ''?'' paramParts;
                          rawPlugin = (if paramParts = [] then [] else search_or_empty P q ''plugin'');
                          plugin = (if rawPlugin = [] then [] else first_of (split_on CHR '';'' rawPlugin));
                          plugin_opts = (if rawPlugin = [] then []
                                         else join '';'' (tl (split_on CHR '';'' rawPlugin)));
                          obfs = (if paramParts = [] then [] else search_or_empty P q ''obfs'');
                          obfsHost = (if paramParts = [] then [] else search_or_empty P q ''obfs-host'')
                      in Inr (ss_record method password host port plugin plugin_opts obfs obfsHost
                                (decode_name P fragment ''SS Server''))))"

subsection \<open>Dispatch on the prefix\<close>

text \<open>
  A link is text, as the batch processor's contract has it, so of the first test
  \<^verbatim>\<open>!link || typeof link !== 'string'\<close> only the empty string is left.
\<close>

definition parseAnyLink :: "platform \<Rightarrow> string \<Rightarrow> js_error + jsobj" where
  "parseAnyLink P link =
     (if link = [] then Inl (Error ''Link must be a non-empty string'')
      else if length link > 2000 then Inl (Error ''Link is too long'')
      else if startsWith link ''vless://'' then parseVLESS P link
      else if startsWith link ''vmess://'' then parseVMess P link
      else if startsWith link ''trojan://'' then parseTrojan P link
      else if startsWith link ''ss://'' then parseSS P link
      else Inl (Error ''Unsupported protocol. Supported: vless, vmess, trojan, ss''))"


section \<open>Format serializers\<close>

definition and_then :: "js_error + 'a \<Rightarrow> ('a \<Rightarrow> js_error + 'b) \<Rightarrow> js_error + 'b" where
  "and_then r f = (case r of Inl e \<Rightarrow> Inl e | Inr x \<Rightarrow> f x)"

definition bool_str :: "bool \<Rightarrow> string" where
  "bool_str b = (if b then ''true'' else ''false'')"

text \<open>\<^verbatim>\<open>if (config.x) ob.k = config.x\<close>.\<close>

definition set_if :: "jsobj \<Rightarrow> string \<Rightarrow> jsval \<Rightarrow> jsobj" where
  "set_if ob k v = (if truthy v then obj_set ob k v else ob)"

definition quote :: "string \<Rightarrow> string" where
  "quote s = [CHR 0x27] @ s @ [CHR 0x27]"

definition not_a_function :: "string \<Rightarrow> js_error" where
  "not_a_function what = TypeError (what @ '' is not a function'')"

subsection \<open>Clash\<close>

text \<open>
  \<^verbatim>\<open>if (config.alpn) ob.alpn = config.alpn.split(',').map(a => a.trim())\<close>: a truthy value that
  is not a string has no \<^verbatim>\<open>split\<close>, and the call throws.
\<close>

definition clash_set_alpn :: "jsobj \<Rightarrow> jsval \<Rightarrow> js_error + jsobj" where
  "clash_set_alpn ob alpn =
     (if \<not> truthy alpn then Inr ob
      else (case alpn of
              Str s \<Rightarrow> Inr (obj_set ob ''alpn'' (Arr (map (\<lambda>a. Str (trim a)) (split_on CHR '','' s))))
            | _ \<Rightarrow> Inl (not_a_function ''config.alpn.split'')))"

definition clash_ws :: "jsobj \<Rightarrow> jsobj \<Rightarrow> jsobj" where
  "clash_ws config ob =
     (if js_get config ''network'' = Str ''ws''
      then
        let o1 = obj_set ob ''network'' (Str ''ws'');
            o2 = obj_set o1 ''ws-path'' (js_or (js_get config ''path'') (Str ''/''))
        in if truthy (js_get config ''host_header'')
           then obj_set o2 ''ws-headers'' (Obj (obj_lit [(''host'', js_get config ''host_header'')]))
           else o2
      else ob)"

text \<open>
  The options of a shadowsocks plugin, \<^verbatim>\<open>k=v\<close> parts between semicolons. An assignment
  to the key \<^verbatim>\<open>__proto__\<close> with a string creates no property. (Keys that are array indices
  would be listed before the others; the model does not reorder them.)
\<close>

fun plugin_opts_loop :: "string list \<Rightarrow> jsobj \<Rightarrow> jsobj" where
  "plugin_opts_loop [] opts = opts"
| "plugin_opts_loop (part # parts) opts =
     (if part = [] then plugin_opts_loop parts opts
      else
        let kv = split_on CHR ''='' part;
            key = first_of kv;
            val = join ''='' (tl kv)
        in if key = ''tls'' then plugin_opts_loop parts (obj_set opts key (Bool True))
           else if val \<noteq> [] \<and> key \<noteq> ''__proto__''
                then plugin_opts_loop parts (obj_set opts key (Str val))
                else plugin_opts_loop parts opts)"

definition clash_plugin :: "jsobj \<Rightarrow> jsobj \<Rightarrow> js_error + jsobj" where
  "clash_plugin config ob =
     (if \<not> truthy (js_get config ''plugin'') then Inr ob
      else
        let o1 = obj_set ob ''plugin'' (js_get config ''plugin'')
        in and_then
             (if \<not> truthy (js_get config ''plugin_opts'') then Inr []
              else (case js_get config ''plugin_opts'' of
                      Str s \<Rightarrow> Inr (plugin_opts_loop (split_on CHR '';'' s) [])
                    | _ \<Rightarrow> Inl (not_a_function ''config.plugin_opts.split'')))
             (\<lambda>opts.
                if opts \<noteq> [] then Inr (obj_set o1 ''plugin-opts'' (Obj opts))
                else if truthy (js_get config ''obfs'')
                then Inr (obj_set o1 ''plugin-opts''
                            (Obj (obj_lit [(''mode'', js_get config ''obfs''),
                                           (''host'', js_get config ''obfsHost'')])))
                else Inr o1))"

definition clash_base :: "jsobj \<Rightarrow> jsobj" where
  "clash_base config =
     obj_lit
       [(''name'', js_get config ''name''),
        (''type'', js_get config ''type''),
        (''server'', js_get config ''host''),
        (''port'', js_get config ''port''),
        (''udp'', Bool True),
        (''skip-cert-verify'', Bool (truthy (js_get config ''allowInsecure'')))]"

definition clash_vless :: "jsobj \<Rightarrow> js_error + jsobj" where
  "clash_vless config =
     (let security = js_get config ''security'';
          c1 = obj_set (clash_base config) ''uuid'' (js_get config ''uuid'');
          tls = (security = Str ''tls'' \<or> security = Str ''reality'');
          c2 = obj_set c1 ''tls'' (Bool tls)
      in and_then
           (if tls then
              and_then
                (clash_set_alpn (set_if c2 ''servername'' (js_get config ''sni''))
                   (js_get config ''alpn''))
                (\<lambda>c4.
                   let c5 = set_if c4 ''fingerprint'' (js_get config ''fp'')
                   in if security = Str ''reality''
                      then
                        Inr (set_if
                              (set_if
                                (set_if (obj_set c5 ''client-fingerprint'' (js_get config ''fp''))
                                   ''public-key'' (js_get config ''pbk''))
                                ''short-id'' (js_get config ''sid''))
                              ''spider-x'' (js_get config ''spx''))
                      else if security = Str ''tls''
                      then Inr (set_if c5 ''flow'' (js_get config ''flow''))
                      else Inr c5)
            else Inr c2)
           (\<lambda>c. Inr (clash_ws config c)))"

definition clash_vmess :: "jsobj \<Rightarrow> js_error + jsobj" where
  "clash_vmess config =
     (let c1 = obj_set (clash_base config) ''uuid'' (js_get config ''uuid'');
          c2 = obj_set c1 ''alterId'' (js_get config ''alterId'');
          c3 = obj_set c2 ''cipher'' (js_get config ''security'');
          tls = truthy (js_get config ''tls'');
          c4 = obj_set c3 ''tls'' (Bool tls)
      in and_then
           (if tls then
              and_then
                (clash_set_alpn (set_if c4 ''servername'' (js_get config ''sni''))
                   (js_get config ''alpn''))
                (\<lambda>c6. Inr (set_if c6 ''fingerprint'' (js_get config ''fp'')))
            else Inr c4)
           (\<lambda>c. Inr (clash_ws config c)))"

definition clash_trojan :: "jsobj \<Rightarrow> js_error + jsobj" where
  "clash_trojan config =
     (let c1 = obj_set (clash_base config) ''password'' (js_get config ''password'');
          c2 = obj_set c1 ''tls'' (Bool True);
          c3 = set_if c2 ''sni'' (js_get config ''sni'')
      in and_then (clash_set_alpn c3 (js_get config ''alpn''))
           (\<lambda>c4. Inr (clash_ws config (set_if c4 ''fingerprint'' (js_get config ''fp'')))))"

definition clash_ss :: "jsobj \<Rightarrow> js_error + jsobj" where
  "clash_ss config =
     (let c1 = obj_set (clash_base config) ''cipher'' (js_get config ''method'');
          c2 = obj_set c1 ''password'' (js_get config ''password'')
      in clash_plugin config c2)"

text \<open>The mapping \<^verbatim>\<open>toClash\<close> builds, before it is handed to \<^verbatim>\<open>yaml.dump\<close>.\<close>

definition clash_object :: "jsobj \<Rightarrow> js_error + jsobj" where
  "clash_object config =
     (let t = js_get config ''type''
      in if t = Str ''vless'' then clash_vless config
         else if t = Str ''vmess'' then clash_vmess config
         else if t = Str ''trojan'' then clash_trojan config
         else if t = Str ''ss'' then clash_ss config
         else Inl (Error (''Tidak dapat mengkonversi protokol '' @ quote (toString t)
                          @ '' ke format Clash.'')))"

definition toClash :: "platform \<Rightarrow> jsobj \<Rightarrow> js_error + string" where
  "toClash P config =
     and_then (clash_object config)
       (\<lambda>clashConfig. and_then (yaml_dump P (Arr [Obj clashConfig])) (\<lambda>text. Inr (trim text)))"

subsection \<open>Surge\<close>

definition surge_ws :: "jsobj \<Rightarrow> string" where
  "surge_ws config =
     (if js_get config ''network'' = Str ''ws''
      then '', ws=true, ws-path='' @ toString (js_get config ''path'')
           @ (if truthy (js_get config ''host_header'')
              then '', ws-headers=host:'' @ toString (js_get config ''host_header'') else [])
      else [])"

definition surge_tls :: "jsobj \<Rightarrow> string" where
  "surge_tls config =
     '', tls=true, sni='' @ toString (js_get config ''sni'')
     @ (if truthy (js_get config ''alpn'') then '', alpn='' @ toString (js_get config ''alpn'') else [])
     @ (if truthy (js_get config ''fp'')
        then '', server-cert-fingerprint-sha256='' @ toString (js_get config ''fp'') else [])"

definition surge_vless_opts :: "jsobj \<Rightarrow> string" where
  "surge_vless_opts config =
     ''skip-cert-verify='' @ bool_str (truthy (js_get config ''allowInsecure''))
     @ (if js_get config ''security'' = Str ''tls'' then surge_tls config
        else if js_get config ''security'' = Str ''reality''
        then '', tls=true, sni='' @ toString (js_get config ''sni'')
        else [])
     @ (if truthy (js_get config ''flow'') then '', flow='' @ toString (js_get config ''flow'') else [])
     @ surge_ws config"

definition surge_vmess_opts :: "jsobj \<Rightarrow> string" where
  "surge_vmess_opts config =
     ''skip-cert-verify='' @ bool_str (truthy (js_get config ''allowInsecure''))
     @ (if truthy (js_get config ''tls'') then surge_tls config else [])
     @ surge_ws config"

definition surge_trojan_opts :: "jsobj \<Rightarrow> string" where
  "surge_trojan_opts config =
     ''skip-cert-verify='' @ bool_str (truthy (js_get config ''allowInsecure''))
     @ '', sni='' @ toString (js_get config ''sni'')
     @ (if truthy (js_get config ''alpn'') then '', alpn='' @ toString (js_get config ''alpn'') else [])
     @ (if truthy (js_get config ''fp'')
        then '', server-cert-fingerprint-sha256='' @ toString (js_get config ''fp'') else [])
     @ surge_ws config"

definition surge_line :: "jsobj \<Rightarrow> string \<Rightarrow> string \<Rightarrow> string" where
  "surge_line config kind rest =
     toString (js_get config ''name'') @ '' = '' @ kind @ '', ''
     @ toString (js_get config ''host'') @ '', '' @ toString (js_get config ''port'') @ '', '' @ rest"

definition toSurge :: "jsobj \<Rightarrow> js_error + string" where
  "toSurge config =
     (let t = js_get config ''type''
      in if t = Str ''vless''
         then Inr (surge_line config ''vless''
                     (''username='' @ toString (js_get config ''uuid'') @ '', ''
                      @ surge_vless_opts config))
         else if t = Str ''vmess''
         then Inr (surge_line config ''vmess''
                     (''username='' @ toString (js_get config ''uuid'') @ '', ''
                      @ surge_vmess_opts config))
         else if t = Str ''trojan''
         then Inr (surge_line config ''trojan''
                     (''password='' @ toString (js_get config ''password'') @ '', ''
                      @ surge_trojan_opts config))
         else if t = Str ''ss''
         then (if truthy (js_get config ''plugin'')
               then Inr (surge_line config ''custom''
                           (toString (js_get config ''method'') @ '', ''
                            @ toString (js_get config ''password'')
                            @ '', https://raw.githubusercontent.com/ConnersHua/SSEncrypt/master/SSEncrypt.module''))
               else Inr (surge_line config ''ss''
                           (toString (js_get config ''method'') @ '', ''
                            @ toString (js_get config ''password''))))
         else Inl (Error (''Unsupported type for Surge: '' @ toString t)))"

subsection \<open>Quantumult\<close>

definition quantumult_ws :: "jsobj \<Rightarrow> string" where
  "quantumult_ws config =
     (if js_get config ''network'' = Str ''ws''
      then '', ws=true, ws-path='' @ toString (js_get config ''path'')
           @ (if truthy (js_get config ''host_header'')
              then '', ws-header=host:'' @ toString (js_get config ''host_header'') else [])
      else [])"

definition quantumult_alpn_fp :: "jsobj \<Rightarrow> string" where
  "quantumult_alpn_fp config =
     (if truthy (js_get config ''alpn'') then '', alpn='' @ toString (js_get config ''alpn'') else [])
     @ (if truthy (js_get config ''fp'') then '', tls-cert-sha256='' @ toString (js_get config ''fp'')
        else [])"

definition quantumult_vless_params :: "jsobj \<Rightarrow> string" where
  "quantumult_vless_params config =
     ''skip-cert-verify='' @ bool_str (truthy (js_get config ''allowInsecure''))
     @ (if js_get config ''security'' = Str ''tls''
        then '', tls=true, sni='' @ toString (js_get config ''sni'') @ quantumult_alpn_fp config
        else if js_get config ''security'' = Str ''reality''
        then '', tls=true, sni='' @ toString (js_get config ''sni'')
        else [])
     @ (if truthy (js_get config ''flow'') then '', flow='' @ toString (js_get config ''flow'') else [])
     @ quantumult_ws config"

definition quantumult_vmess_params :: "jsobj \<Rightarrow> string" where
  "quantumult_vmess_params config =
     ''skip-cert-verify='' @ bool_str (truthy (js_get config ''allowInsecure''))
     @ (if truthy (js_get config ''tls'')
        then '', tls='' @ toString (js_get config ''tls'') @ '', sni=''
             @ toString (js_get config ''sni'') @ quantumult_alpn_fp config
        else [])
     @ quantumult_ws config"

definition quantumult_trojan_params :: "jsobj \<Rightarrow> string" where
  "quantumult_trojan_params config =
     ''skip-cert-verify='' @ bool_str (truthy (js_get config ''allowInsecure''))
     @ '', over-tls=true, tls-host='' @ toString (js_get config ''sni'')
     @ quantumult_alpn_fp config
     @ quantumult_ws config"

definition quantumult_ss_params :: "jsobj \<Rightarrow> string" where
  "quantumult_ss_params config =
     ''encrypt-method='' @ toString (js_get config ''method'') @ '', password=''
     @ toString (js_get config ''password'')
     @ (if truthy (js_get config ''obfs'')
        then '', obfs='' @ toString (js_get config ''obfs'') @ '', obfs-host=''
             @ toString (js_get config ''obfsHost'')
        else [])"

definition quantumult_line :: "jsobj \<Rightarrow> string \<Rightarrow> string \<Rightarrow> string" where
  "quantumult_line config kind rest =
     kind @ ''='' @ toString (js_get config ''host'') @ '':'' @ toString (js_get config ''port'')
     @ '', '' @ rest @ '', tag='' @ toString (js_get config ''name'')"

definition toQuantumult :: "jsobj \<Rightarrow> js_error + string" where
  "toQuantumult config =
     (let t = js_get config ''type''
      in if t = Str ''vless''
         then Inr (quantumult_line config ''vmess''
                     (''method=none, password='' @ toString (js_get config ''uuid'') @ '', ''
                      @ quantumult_vless_params config))
         else if t = Str ''vmess''
         then Inr (quantumult_line config ''vmess''
                     (''method=none, password='' @ toString (js_get config ''uuid'') @ '', ''
                      @ quantumult_vmess_params config))
         else if t = Str ''trojan''
         then Inr (quantumult_line config ''trojan''
                     (''password='' @ toString (js_get config ''password'') @ '', ''
                      @ quantumult_trojan_params config))
         else if t = Str ''ss''
         then Inr (quantumult_line config ''shadowsocks''
                     (''method='' @ toString (js_get config ''method'') @ '', password=''
                      @ toString (js_get config ''password'') @ '', ''
                      @ quantumult_ss_params config))
         else Inl (Error (''Unsupported type for Quantumult: '' @ toString t)))"


subsection \<open>sing-box\<close>

definition singbox_ws :: "jsobj \<Rightarrow> jsobj \<Rightarrow> jsobj" where
  "singbox_ws config base =
     (if js_get config ''network'' = Str ''ws''
      then obj_set base ''transport''
             (Obj (obj_lit
                [(''type'', Str ''ws''),
                 (''path'', js_or (js_get config ''path'') (Str ''/'')),
                 (''headers'',
                    if truthy (js_get config ''host_header'')
                    then Obj (obj_lit [(''host'', js_get config ''host_header'')])
                    else Obj [])]))
      else base)"

definition singbox_grpc :: "jsobj \<Rightarrow> jsobj \<Rightarrow> jsobj" where
  "singbox_grpc config base =
     (if js_get config ''network'' = Str ''grpc''
      then obj_set base ''transport''
             (Obj (obj_lit
                [(''type'', Str ''grpc''),
                 (''service_name'', js_or (js_get config ''serviceName'') (Str []))]))
      else base)"

text \<open>
  \<^verbatim>\<open>if (config.alpn) tls.alpn = config.alpn.split(',').map(a => a.trim()).filter(a => a)\<close>.
\<close>

definition singbox_set_alpn :: "jsobj \<Rightarrow> jsval \<Rightarrow> js_error + jsobj" where
  "singbox_set_alpn tls alpn =
     (if \<not> truthy alpn then Inr tls
      else (case alpn of
              Str s \<Rightarrow>
                Inr (obj_set tls ''alpn''
                       (Arr (map Str (filter (\<lambda>a. a \<noteq> []) (map trim (split_on CHR '','' s))))))
            | _ \<Rightarrow> Inl (not_a_function ''config.alpn.split'')))"

definition singbox_utls :: "jsobj \<Rightarrow> jsval" where
  "singbox_utls config =
     Obj (obj_lit [(''enabled'', Bool True),
                   (''fingerprint'', js_or (js_get config ''fp'') (Str ''chrome''))])"

definition singbox_tls_enabled :: "jsobj \<Rightarrow> jsobj" where
  "singbox_tls_enabled config =
     obj_lit
       [(''enabled'', Bool True),
        (''server_name'', js_or (js_get config ''sni'') (js_get config ''host'')),
        (''insecure'', Bool (truthy (js_get config ''allowInsecure'')))]"

definition singbox_tls_disabled :: jsval where
  "singbox_tls_disabled = Obj (obj_lit [(''enabled'', Bool False)])"

definition singbox_v_tls :: "jsobj \<Rightarrow> js_error + jsval" where
  "singbox_v_tls config =
     (let security = js_get config ''security''
      in if security = Str ''tls'' \<or> security = Str ''reality'' \<or> truthy (js_get config ''tls'')
         then
           and_then (singbox_set_alpn (singbox_tls_enabled config) (js_get config ''alpn''))
             (\<lambda>tls1.
                if security = Str ''reality''
                then
                  Inr (Obj (obj_set
                             (obj_set (obj_set tls1 ''utls'' (singbox_utls config))
                                ''reality''
                                (Obj (obj_lit [(''enabled'', Bool True),
                                               (''public_key'', js_get config ''pbk''),
                                               (''short_id'', js_get config ''sid'')])))
                             ''flow'' (js_or (js_get config ''flow'') (Str []))))
                else if security = Str ''tls''
                then Inr (Obj (set_if (obj_set tls1 ''utls'' (singbox_utls config))
                                 ''flow'' (js_get config ''flow'')))
                else Inr (Obj tls1))
         else Inr singbox_tls_disabled)"

definition singbox_base :: "jsobj \<Rightarrow> jsobj" where
  "singbox_base config =
     obj_lit
       [(''tag'', js_get config ''name''),
        (''type'', if js_get config ''type'' = Str ''ss'' then Str ''shadowsocks''
                   else js_get config ''type''),
        (''server'', js_get config ''host''),
        (''server_port'', js_get config ''port'')]"

text \<open>The object \<^verbatim>\<open>toSingBox\<close> builds, before \<^verbatim>\<open>JSON.stringify\<close>.\<close>

definition singbox_object :: "jsobj \<Rightarrow> js_error + jsobj" where
  "singbox_object config =
     (let t = js_get config ''type''; base = singbox_base config
      in if t = Str ''vless'' \<or> t = Str ''vmess''
         then
           let b1 = obj_set base ''uuid'' (js_get config ''uuid'');
               b2 = (if t = Str ''vmess'' then obj_set b1 ''alter_id'' (js_get config ''alterId'')
                     else b1);
               b4 = singbox_grpc config (singbox_ws config b2)
           in and_then (singbox_v_tls config)
                (\<lambda>tls.
                   let b5 = obj_set b4 ''tls'' tls
                   in Inr (if js_get config ''security'' = Str ''none''
                              \<and> \<not> truthy (js_get config ''tls'')
                           then obj_set b5 ''tls'' singbox_tls_disabled
                           else b5))
         else if t = Str ''trojan''
         then
           let b1 = obj_set base ''password'' (js_get config ''password'');
               b2 = singbox_ws config b1
           in and_then
                (singbox_set_alpn
                   (obj_set (singbox_tls_enabled config) ''utls'' (singbox_utls config))
                   (js_get config ''alpn''))
                (\<lambda>tls. Inr (obj_set b2 ''tls'' (Obj tls)))
         else if t = Str ''ss''
         then
           let b1 = obj_set base ''method'' (js_get config ''method'');
               b2 = obj_set b1 ''password'' (js_get config ''password'')
           in Inr (if truthy (js_get config ''plugin'')
                   then set_if (obj_set b2 ''plugin'' (js_get config ''plugin''))
                          ''plugin_opts'' (js_get config ''plugin_opts'')
                   else b2)
         else Inr base)"

definition toSingBox :: "platform \<Rightarrow> jsobj \<Rightarrow> js_error + string" where
  "toSingBox P config =
     and_then (singbox_object config) (\<lambda>base. Inr (JSON_stringify P (Obj base)))"

section \<open>Link extraction and batch processing\<close>




record fragments =
  clash :: string
  surge :: string
  quantumult :: string
  singbox :: string

text \<open>
  A batch entry: \<^verbatim>\<open>{ original, formats, link, tag }\<close> on success,
  \<^verbatim>\<open>{ error, link }\<close> when anything inside the \<^verbatim>\<open>try\<close> threw. The \<^verbatim>\<open>catch\<close> block logs
  \<^verbatim>\<open>singleLink.substring(0, 50)\<close> before it pushes the entry; on text this cannot throw. (An
  element that is not text has no \<^verbatim>\<open>substring\<close>: there the \<^verbatim>\<open>catch\<close> block itself would
  throw and end the loop. Such input is outside the contract and outside the model.)
\<close>

datatype batch_entry =
    Success jsobj fragments string string
  | Failure string string


fun entry_tag :: "batch_entry \<Rightarrow> string option" where
  "entry_tag (Success original fs link tag) = Some tag"
| "entry_tag (Failure err link) = None"

fun entry_original :: "batch_entry \<Rightarrow> jsobj option" where
  "entry_original (Success original fs link tag) = Some original"
| "entry_original (Failure err link) = None"

fun is_success :: "batch_entry \<Rightarrow> bool" where
  "is_success (Success original fs link tag) = True"
| "is_success (Failure err link) = False"

definition originalName :: "jsobj \<Rightarrow> jsval" where
  "originalName parsed = js_or (js_get parsed ''name'') (Str ''Proxy Server'')"

definition configName :: "jsobj \<Rightarrow> nat \<Rightarrow> nat \<Rightarrow> string" where
  "configName parsed startIndex i =
     toString (originalName parsed) @ ''-'' @ nat_to_string (startIndex + i + 1) @ '' [vortexVpn]''"

definition named_config :: "jsobj \<Rightarrow> nat \<Rightarrow> nat \<Rightarrow> jsobj" where
  "named_config parsed startIndex i =
     obj_set (obj_set parsed ''name'' (Str (configName parsed startIndex i)))
       ''network'' (js_or (js_get parsed ''network'') (Str ''tcp''))"

text \<open>The body of the \<^verbatim>\<open>try\<close>: parse, name, then the four serializers in the source's order.\<close>

definition convert_link ::
  "platform \<Rightarrow> nat \<Rightarrow> nat \<Rightarrow> string \<Rightarrow> js_error + (jsobj \<times> fragments \<times> string)" where
  "convert_link P startIndex i singleLink =
     and_then (parseAnyLink P singleLink)
       (\<lambda>parsed.
          let config = named_config parsed startIndex i
          in and_then (toClash P config)
               (\<lambda>c. and_then (toSurge config)
                  (\<lambda>s. and_then (toQuantumult config)
                     (\<lambda>q. and_then (toSingBox P config)
                        (\<lambda>b. Inr (config,
                                   \<lparr>clash = c, surge = s, quantumult = q, singbox = b\<rparr>,
                                   configName parsed startIndex i))))))"

definition process_link :: "platform \<Rightarrow> nat \<Rightarrow> nat \<Rightarrow> string \<Rightarrow> batch_entry" where
  "process_link P startIndex i singleLink =
     (case convert_link P startIndex i singleLink of
        Inr (config, fs, tag) \<Rightarrow> Success config fs singleLink tag
      | Inl convertError \<Rightarrow> Failure (message convertError) singleLink)"

fun process_loop ::
  "platform \<Rightarrow> nat \<Rightarrow> nat \<Rightarrow> string list \<Rightarrow> batch_entry list \<Rightarrow> batch_entry list" where
  "process_loop P startIndex i [] results = results"
| "process_loop P startIndex i (singleLink # links) results =
     process_loop P startIndex (i + 1) links (results @ [process_link P startIndex i singleLink])"

definition processLinks :: "platform \<Rightarrow> string list \<Rightarrow> nat \<Rightarrow> batch_entry list" where
  "processLinks P links startIndex = process_loop P startIndex 0 links []"

section \<open>Template loading\<close>

text \<open>
  The renderer's state is its cache, keyed by the text \<^verbatim>\<open>format:level\<close>; \<open>reads\<close> logs the
  files the loader asked for, in order. The file system is a parameter: \<open>fs format name\<close>
  is the outcome of \<^verbatim>\<open>fs.readFile(path.join(templatesDir, format, name), 'utf8')\<close>.
  A compiled template is kept as the source it was compiled from (\<^verbatim>\<open>Handlebars.compile\<close>
  of a string does not fail; errors in a template show when it is rendered). Expiry of cache
  entries with time is not modelled: the cache is what \<^verbatim>\<open>cache.has\<close> sees at the call.
\<close>

datatype template = Template string

record renderer =
  cache :: "string \<rightharpoonup> template"
  reads :: "(string \<times> string) list"

definition extension_of :: "string \<Rightarrow> string" where
  "extension_of format =
     (if format = ''clash'' then ''yaml.hbs''
      else if format = ''singbox'' then ''json.hbs''
      else if format = ''surge'' then ''ini.hbs''
      else if format = ''quantumult'' then ''ini.hbs''
      else ''hbs'')"

definition load_failure :: "string \<Rightarrow> string \<Rightarrow> js_error \<Rightarrow> js_error" where
  "load_failure format level err =
     Error (''Template for '' @ format @ '' at level '' @ level
            @ '' could not be loaded. Original error: '' @ message err)"

function loadTemplate ::
  "(string \<Rightarrow> string \<Rightarrow> js_error + string) \<Rightarrow> renderer \<Rightarrow> string \<Rightarrow> string
     \<Rightarrow> (js_error + template) \<times> renderer" where
  "loadTemplate fs st format level =
     (case cache st (format @ '':'' @ level) of
        Some t \<Rightarrow> (Inr t, st)
      | None \<Rightarrow>
          (case fs format (level @ ''.'' @ extension_of format) of
             Inr source \<Rightarrow>
               (Inr (Template source),
                st\<lparr>cache := (cache st)(format @ '':'' @ level \<mapsto> Template source),
                   reads := reads st @ [(format, level @ ''.'' @ extension_of format)]\<rparr>)
           | Inl err \<Rightarrow>
               if level \<noteq> ''basic''
               then loadTemplate fs
                      (st\<lparr>reads := reads st @ [(format, level @ ''.'' @ extension_of format)]\<rparr>)
                      format ''basic''
               else (Inl (load_failure format level err),
                     st\<lparr>reads := reads st @ [(format, level @ ''.'' @ extension_of format)]\<rparr>)))"
  by pat_completeness auto
termination
  by (relation "measure (\<lambda>(fs, st, format, level). if level = ''basic'' then 0 else 1)") auto

declare loadTemplate.simps [simp del]



section \<open>An executable platform\<close>

text \<open>
  \<open>node\<close> instantiates the platform so that the model can be run on concrete links. It
  follows Node.js on ASCII input and on well-formed UTF-8; where it departs from Node this
  is said at the function. Nothing that is proved for every platform depends on it.
\<close>

subsection \<open>Percent-decoding\<close>

definition hex_value :: "char \<Rightarrow> nat option" where
  "hex_value c =
     (let n = (of_char c :: nat)
      in if 48 \<le> n \<and> n \<le> 57 then Some (n - 48)
         else if 65 \<le> n \<and> n \<le> 70 then Some (n - 55)
         else if 97 \<le> n \<and> n \<le> 102 then Some (n - 87)
         else None)"

datatype uri_item = Lit char | Esc nat

fun uri_items :: "string \<Rightarrow> uri_item list option" where
  "uri_items [] = Some []"
| "uri_items (c # h1 # h2 # rest) =
     (if c = CHR ''%''
      then (case (hex_value h1, hex_value h2) of
              (Some a, Some b) \<Rightarrow> map_option (\<lambda>r. Esc (16 * a + b) # r) (uri_items rest)
            | _ \<Rightarrow> None)
      else map_option (\<lambda>r. Lit c # r) (uri_items (h1 # h2 # rest)))"
| "uri_items (c # cs) =
     (if c = CHR ''%'' then None else map_option (\<lambda>r. Lit c # r) (uri_items cs))"

definition is_cont :: "nat \<Rightarrow> bool" where
  "is_cont b = (128 \<le> b \<and> b \<le> 191)"

text \<open>
  The escaped octets must be well-formed UTF-8 (no overlong form, no surrogate, nothing past
  U+10FFFF); the decoded character is kept as those octets.
\<close>

fun uri_octets :: "uri_item list \<Rightarrow> string option" where
  "uri_octets [] = Some []"
| "uri_octets (Lit c # r) = map_option (\<lambda>s. c # s) (uri_octets r)"
| "uri_octets (Esc b # Esc c1 # Esc c2 # Esc c3 # r) =
     (if b < 128 then map_option (\<lambda>s. char_of b # s) (uri_octets (Esc c1 # Esc c2 # Esc c3 # r))
      else if 194 \<le> b \<and> b \<le> 223 \<and> is_cont c1
      then map_option (\<lambda>s. char_of b # char_of c1 # s) (uri_octets (Esc c2 # Esc c3 # r))
      else if 224 \<le> b \<and> b \<le> 239 \<and> is_cont c1 \<and> is_cont c2
              \<and> (if b = 224 then 160 \<le> c1 else True) \<and> (if b = 237 then c1 \<le> 159 else True)
      then map_option (\<lambda>s. char_of b # char_of c1 # char_of c2 # s) (uri_octets (Esc c3 # r))
      else if 240 \<le> b \<and> b \<le> 244 \<and> is_cont c1 \<and> is_cont c2 \<and> is_cont c3
              \<and> (if b = 240 then 144 \<le> c1 else True) \<and> (if b = 244 then c1 \<le> 143 else True)
      then map_option (\<lambda>s. char_of b # char_of c1 # char_of c2 # char_of c3 # s) (uri_octets r)
      else None)"
| "uri_octets (Esc b # Esc c1 # Esc c2 # r) =
     (if b < 128 then map_option (\<lambda>s. char_of b # s) (uri_octets (Esc c1 # Esc c2 # r))
      else if 194 \<le> b \<and> b \<le> 223 \<and> is_cont c1
      then map_option (\<lambda>s. char_of b # char_of c1 # s) (uri_octets (Esc c2 # r))
      else if 224 \<le> b \<and> b \<le> 239 \<and> is_cont c1 \<and> is_cont c2
              \<and> (if b = 224 then 160 \<le> c1 else True) \<and> (if b = 237 then c1 \<le> 159 else True)
      then map_option (\<lambda>s. char_of b # char_of c1 # char_of c2 # s) (uri_octets r)
      else None)"
| "uri_octets (Esc b # Esc c1 # r) =
     (if b < 128 then map_option (\<lambda>s. char_of b # s) (uri_octets (Esc c1 # r))
      else if 194 \<le> b \<and> b \<le> 223 \<and> is_cont c1
      then map_option (\<lambda>s. char_of b # char_of c1 # s) (uri_octets r)
      else None)"
| "uri_octets (Esc b # r) =
     (if b < 128 then map_option (\<lambda>s. char_of b # s) (uri_octets r) else None)"

definition node_decodeURIComponent :: "string \<Rightarrow> string option" where
  "node_decodeURIComponent s = (case uri_items s of None \<Rightarrow> None | Some its \<Rightarrow> uri_octets its)"

subsection \<open>Base64\<close>

text \<open>
  Node's decoder takes both alphabets, skips every character outside them and stops at the
  first \<^verbatim>\<open>=\<close>; it never throws. A trailing group of two or three characters gives one or
  two bytes. The bytes are then read as UTF-8 (kept as they are here; Node replaces
  ill-formed sequences by U+FFFD).
\<close>

definition b64_value :: "char \<Rightarrow> nat option" where
  "b64_value c =
     (let n = (of_char c :: nat)
      in if 65 \<le> n \<and> n \<le> 90 then Some (n - 65)
         else if 97 \<le> n \<and> n \<le> 122 then Some (n - 71)
         else if 48 \<le> n \<and> n \<le> 57 then Some (n + 4)
         else if c = CHR ''+'' \<or> c = CHR ''-'' then Some 62
         else if c = CHR ''/'' \<or> c = CHR ''_'' then Some 63
         else None)"

fun b64_sextets :: "string \<Rightarrow> nat list" where
  "b64_sextets [] = []"
| "b64_sextets (c # cs) =
     (if c = CHR ''='' then []
      else (case b64_value c of None \<Rightarrow> b64_sextets cs | Some v \<Rightarrow> v # b64_sextets cs))"

fun b64_bytes :: "nat list \<Rightarrow> nat list" where
  "b64_bytes (a # b # c # d # rest) =
     (a * 4 + b div 16) # ((b mod 16) * 16 + c div 4) # ((c mod 4) * 64 + d) # b64_bytes rest"
| "b64_bytes [a, b, c] = [a * 4 + b div 16, (b mod 16) * 16 + c div 4]"
| "b64_bytes [a, b] = [a * 4 + b div 16]"
| "b64_bytes [a] = []"
| "b64_bytes [] = []"

definition node_base64_utf8 :: "string \<Rightarrow> string" where
  "node_base64_utf8 s = map char_of (b64_bytes (b64_sextets s))"

subsection \<open>URLSearchParams\<close>

text \<open>
  Form decoding: \<^verbatim>\<open>+\<close> is a space, \<^verbatim>\<open>%XX\<close> is a byte, a \<^verbatim>\<open>%\<close> not followed by two
  hexadecimal digits stays. \<^verbatim>\<open>get\<close> gives the value of the first pair with that name.
\<close>

fun form_decode :: "string \<Rightarrow> string" where
  "form_decode [] = []"
| "form_decode (c # h1 # h2 # rest) =
     (if c = CHR ''%''
      then (case (hex_value h1, hex_value h2) of
              (Some a, Some b) \<Rightarrow> char_of (16 * a + b) # form_decode rest
            | _ \<Rightarrow> c # form_decode (h1 # h2 # rest))
      else (if c = CHR ''+'' then CHR '' '' else c) # form_decode (h1 # h2 # rest))"
| "form_decode (c # cs) = (if c = CHR ''+'' then CHR '' '' else c) # form_decode cs"

definition form_pair :: "string \<Rightarrow> string \<times> string" where
  "form_pair piece =
     (form_decode (takeWhile (\<lambda>c. c \<noteq> CHR ''='') piece),
      form_decode (drop 1 (dropWhile (\<lambda>c. c \<noteq> CHR ''='') piece)))"

definition node_URLSearchParams_get :: "string \<Rightarrow> string \<Rightarrow> string option" where
  "node_URLSearchParams_get q k =
     map_of (map form_pair
               (filter (\<lambda>piece. piece \<noteq> [])
                  (split_on CHR ''&'' (if startsWith q ''?'' then drop 1 q else q)))) k"


subsection \<open>JSON\<close>

definition json_ws :: "string \<Rightarrow> string" where
  "json_ws s = dropWhile (\<lambda>c. c \<in> set [CHR '' '', CHR 0x09, CHR 0x0A, CHR 0x0D]) s"

definition utf8_encode :: "nat \<Rightarrow> string" where
  "utf8_encode n =
     (if n < 128 then [char_of n]
      else if n < 2048 then [char_of (192 + n div 64), char_of (128 + n mod 64)]
      else [char_of (224 + n div 4096), char_of (128 + (n div 64) mod 64), char_of (128 + n mod 64)])"

definition simple_escape :: "char \<Rightarrow> char option" where
  "simple_escape e =
     (if e = CHR 0x22 then Some (CHR 0x22)
      else if e = CHR 0x5C then Some (CHR 0x5C)
      else if e = CHR ''/'' then Some (CHR ''/'')
      else if e = CHR ''b'' then Some (CHR 0x08)
      else if e = CHR ''f'' then Some (CHR 0x0C)
      else if e = CHR ''n'' then Some (CHR 0x0A)
      else if e = CHR ''r'' then Some (CHR 0x0D)
      else if e = CHR ''t'' then Some (CHR 0x09)
      else None)"

text \<open>
  A string literal, read from after its opening quote: the text and what follows the closing
  quote. A \<^verbatim>\<open>\uXXXX\<close> escape is encoded on its own (a surrogate pair is not combined).
\<close>

fun json_string :: "string \<Rightarrow> (string \<times> string) option"
  and json_escape :: "string \<Rightarrow> (string \<times> string) option"
  and json_unicode :: "string \<Rightarrow> (string \<times> string) option" where
  "json_string [] = None"
| "json_string (c # cs) =
     (if c = CHR 0x22 then Some ([], cs)
      else if c = CHR 0x5C then json_escape cs
      else if (of_char c :: nat) < 32 then None
      else map_option (\<lambda>p. (c # fst p, snd p)) (json_string cs))"
| "json_escape [] = None"
| "json_escape (e # rest) =
     (if e = CHR ''u'' then json_unicode rest
      else (case simple_escape e of
              None \<Rightarrow> None
            | Some ch \<Rightarrow> map_option (\<lambda>p. (ch # fst p, snd p)) (json_string rest)))"
| "json_unicode (h1 # h2 # h3 # h4 # rest) =
     (case (hex_value h1, hex_value h2, hex_value h3, hex_value h4) of
        (Some a, Some b, Some c, Some d) \<Rightarrow>
          map_option (\<lambda>p. (utf8_encode (((a * 16 + b) * 16 + c) * 16 + d) @ fst p, snd p))
            (json_string rest)
      | _ \<Rightarrow> None)"
| "json_unicode s = None"

text \<open>
  A number literal. One with a fraction or an exponent is kept as \<open>Other\<close> with its own
  text as rendering (exact when the literal is written the way \<^verbatim>\<open>String\<close> would write it).
\<close>

definition json_number :: "string \<Rightarrow> (jsnum \<times> string) option" where
  "json_number s =
     (let neg = (case s of [] \<Rightarrow> False | c # _ \<Rightarrow> c = CHR ''-'');
          s1 = (if neg then drop 1 s else s);
          ip = (case s1 of [] \<Rightarrow> [] | c # _ \<Rightarrow> if c = CHR ''0'' then ''0'' else takeWhile is_digit s1);
          r1 = drop (length ip) s1;
          fd = (case r1 of [] \<Rightarrow> [] | c # r \<Rightarrow> if c = CHR ''.'' then takeWhile is_digit r else []);
          frac = (if fd = [] then [] else CHR ''.'' # fd);
          r2 = drop (length frac) r1;
          esign = (case r2 of
                     c # d # _ \<Rightarrow>
                       if (c = CHR ''e'' \<or> c = CHR ''E'') \<and> (d = CHR ''+'' \<or> d = CHR ''-'')
                       then [c, d]
                       else if c = CHR ''e'' \<or> c = CHR ''E'' then [c] else []
                   | _ \<Rightarrow> []);
          ed = (if esign = [] then [] else takeWhile is_digit (drop (length esign) r2));
          ex = (if ed = [] then [] else esign @ ed);
          r3 = drop (length ex) r2
      in if ip = [] then None
         else if frac = [] \<and> ex = []
         then Some (Fin (if neg then - digits_value ip else digits_value ip), r3)
         else Some (Other ((if neg then ''-'' else []) @ ip @ frac @ ex), r3))"

text \<open>
  The recursive descent, with fuel: each nested call takes one unit, and \<open>node_JSON_parse\<close>
  starts with more units than the text has characters.
\<close>

fun json_value :: "nat \<Rightarrow> string \<Rightarrow> (jsval \<times> string) option"
  and json_members :: "nat \<Rightarrow> string \<Rightarrow> jsobj \<Rightarrow> (jsval \<times> string) option"
  and json_elements :: "nat \<Rightarrow> string \<Rightarrow> jsval list \<Rightarrow> (jsval \<times> string) option" where
  "json_value 0 s = None"
| "json_value (Suc n) s =
     (case json_ws s of
        [] \<Rightarrow> None
      | c # cs \<Rightarrow>
          if c = CHR ''{''
          then (case json_ws cs of
                  [] \<Rightarrow> None
                | d # ds \<Rightarrow> if d = CHR ''}'' then Some (Obj [], ds) else json_members n (d # ds) [])
          else if c = CHR ''[''
          then (case json_ws cs of
                  [] \<Rightarrow> None
                | d # ds \<Rightarrow> if d = CHR '']'' then Some (Arr [], ds) else json_elements n (d # ds) [])
          else if c = CHR 0x22
          then map_option (\<lambda>p. (Str (fst p), snd p)) (json_string cs)
          else if prefix ''true'' (c # cs) then Some (Bool True, drop 4 (c # cs))
          else if prefix ''false'' (c # cs) then Some (Bool False, drop 5 (c # cs))
          else if prefix ''null'' (c # cs) then Some (Null, drop 4 (c # cs))
          else map_option (\<lambda>p. (Num (fst p), snd p)) (json_number (c # cs)))"
| "json_members 0 s acc = None"
| "json_members (Suc n) s acc =
     (case s of
        [] \<Rightarrow> None
      | q # r \<Rightarrow>
          if q \<noteq> CHR 0x22 then None
          else (case json_string r of
                  None \<Rightarrow> None
                | Some (k, r1) \<Rightarrow>
                    (case json_ws r1 of
                       [] \<Rightarrow> None
                     | colon # r2 \<Rightarrow>
                         if colon \<noteq> CHR '':'' then None
                         else (case json_value n r2 of
                                 None \<Rightarrow> None
                               | Some (v, r3) \<Rightarrow>
                                   (case json_ws r3 of
                                      [] \<Rightarrow> None
                                    | e # r4 \<Rightarrow>
                                        if e = CHR '','' then json_members n (json_ws r4) (obj_set acc k v)
                                        else if e = CHR ''}'' then Some (Obj (obj_set acc k v), r4)
                                        else None)))))"
| "json_elements 0 s acc = None"
| "json_elements (Suc n) s acc =
     (case json_value n s of
        None \<Rightarrow> None
      | Some (v, r1) \<Rightarrow>
          (case json_ws r1 of
             [] \<Rightarrow> None
           | e # r2 \<Rightarrow>
               if e = CHR '','' then json_elements n r2 (acc @ [v])
               else if e = CHR '']'' then Some (Arr (acc @ [v]), r2)
               else None))"

definition node_JSON_parse :: "string \<Rightarrow> jsval option" where
  "node_JSON_parse s =
     (case json_value (2 * length s + 2) s of
        None \<Rightarrow> None
      | Some (v, rest) \<Rightarrow> if json_ws rest = [] then Some v else None)"

definition hex_digit :: "nat \<Rightarrow> char" where
  "hex_digit d = (if d < 10 then char_of (48 + d) else char_of (87 + d))"

definition json_escape_char :: "char \<Rightarrow> string" where
  "json_escape_char c =
     (if c = CHR 0x22 then [CHR 0x5C, CHR 0x22]
      else if c = CHR 0x5C then [CHR 0x5C, CHR 0x5C]
      else if c = CHR 0x08 then [CHR 0x5C, CHR ''b'']
      else if c = CHR 0x0C then [CHR 0x5C, CHR ''f'']
      else if c = CHR 0x0A then [CHR 0x5C, CHR ''n'']
      else if c = CHR 0x0D then [CHR 0x5C, CHR ''r'']
      else if c = CHR 0x09 then [CHR 0x5C, CHR ''t'']
      else if (of_char c :: nat) < 32
      then [CHR 0x5C, CHR ''u'', CHR ''0'', CHR ''0'',
            hex_digit (of_char c div 16), hex_digit (of_char c mod 16)]
      else [c])"

definition json_quote :: "string \<Rightarrow> string" where
  "json_quote s = [CHR 0x22] @ concat (map json_escape_char s) @ [CHR 0x22]"

text \<open>
  \<^verbatim>\<open>JSON.stringify(v, null, 2)\<close>, \<open>ind\<close> being the indentation reached: a property whose
  value is \<^verbatim>\<open>undefined\<close> is left out, \<open>NaN\<close> and the infinities are \<^verbatim>\<open>null\<close>.
\<close>

function stringify :: "string \<Rightarrow> jsval \<Rightarrow> string" where
  "stringify ind Undefined = ''null''"
| "stringify ind Null = ''null''"
| "stringify ind (Bool b) = bool_str b"
| "stringify ind (Num NaN) = ''null''"
| "stringify ind (Num (Fin n)) = int_to_string n"
| "stringify ind (Num (Other s)) = (if s = ''Infinity'' \<or> s = ''-Infinity'' then ''null'' else s)"
| "stringify ind (Str s) = json_quote s"
| "stringify ind (Arr xs) =
     (if xs = [] then ''[]''
      else ''['' @ [CHR 0x0A]
           @ join ('','' @ [CHR 0x0A]) (map (\<lambda>x. ind @ ''  '' @ stringify (ind @ ''  '') x) xs)
           @ [CHR 0x0A] @ ind @ '']'')"
| "stringify ind (Obj kvs) =
     (if filter (\<lambda>kv. snd kv \<noteq> Undefined) kvs = [] then ''{}''
      else ''{'' @ [CHR 0x0A]
           @ join ('','' @ [CHR 0x0A])
               (map (\<lambda>kv. ind @ ''  '' @ json_quote (fst kv) @ '': ''
                          @ stringify (ind @ ''  '') (snd kv))
                  (filter (\<lambda>kv. snd kv \<noteq> Undefined) kvs))
           @ [CHR 0x0A] @ ind @ ''}'')"
  by pat_completeness auto
termination
proof (relation "measure (\<lambda>(ind, v). size v)")
  show "wf (measure (\<lambda>(ind, v). size v))" by simp
next
  fix ind :: string and xs :: "jsval list" and x
  assume "x \<in> set xs"
  then have "size x < Suc (size_list size xs)"
    by (induction xs) auto
  then show "((ind @ ''  '', x), (ind, Arr xs)) \<in> measure (\<lambda>(ind, v). size v)" by simp
next
  fix ind :: string and kvs :: "(string \<times> jsval) list" and kv
  assume "kv \<in> set (filter (\<lambda>kv. snd kv \<noteq> Undefined) kvs)"
  then have "kv \<in> set kvs" by simp
  then have "f kv < Suc (size_list f kvs)" for f :: "string \<times> jsval \<Rightarrow> nat"
    by (induction kvs) auto
  from this [of "\<lambda>p. size (snd p)"]
  have "size (snd kv) < Suc (size_list (\<lambda>p. size (snd p)) kvs)" .
  moreover have "size_list (\<lambda>p. size (snd p)) kvs \<le> size_list (size_prod (\<lambda>_. 0) size) kvs"
    by (induction kvs) (auto simp: size_prod_simp)
  ultimately have "size (snd kv) < Suc (size_list (size_prod (\<lambda>_. 0) size) kvs)"
    by simp
  then show "((ind @ ''  '', snd kv), (ind, Obj kvs)) \<in> measure (\<lambda>(ind, v). size v)" by simp
qed

definition node_JSON_stringify :: "jsval \<Rightarrow> string" where
  "node_JSON_stringify v = stringify [] v"

subsection \<open>YAML\<close>

text \<open>
  js-yaml refuses a value that is or contains \<^verbatim>\<open>undefined\<close>. What it writes otherwise (block
  style, a quoting chosen per scalar) is not reproduced: the instance writes the same data
  in YAML's flow style, and no statement below reads that text.
\<close>

function has_undefined :: "jsval \<Rightarrow> bool" where
  "has_undefined Undefined = True"
| "has_undefined Null = False"
| "has_undefined (Bool b) = False"
| "has_undefined (Num n) = False"
| "has_undefined (Str s) = False"
| "has_undefined (Arr xs) = list_ex has_undefined xs"
| "has_undefined (Obj kvs) = list_ex (\<lambda>kv. has_undefined (snd kv)) kvs"
  by pat_completeness auto
termination
proof (relation "measure size")
  show "wf (measure size)" by simp
next
  fix xs :: "jsval list" and x
  assume "x \<in> set xs"
  then have "size x < Suc (size_list size xs)"
    by (induction xs) auto
  then show "(x, Arr xs) \<in> measure size" by simp
next
  fix kvs :: "(string \<times> jsval) list" and kv
  assume "kv \<in> set kvs"
  then have "f kv < Suc (size_list f kvs)" for f :: "string \<times> jsval \<Rightarrow> nat"
    by (induction kvs) auto
  from this [of "\<lambda>p. size (snd p)"]
  have "size (snd kv) < Suc (size_list (\<lambda>p. size (snd p)) kvs)" .
  moreover have "size_list (\<lambda>p. size (snd p)) kvs \<le> size_list (size_prod (\<lambda>_. 0) size) kvs"
    by (induction kvs) (auto simp: size_prod_simp)
  ultimately have "size (snd kv) < Suc (size_list (size_prod (\<lambda>_. 0) size) kvs)"
    by simp
  then show "(snd kv, Obj kvs) \<in> measure size" by simp
qed

definition node_yaml_dump :: "jsval \<Rightarrow> js_error + string" where
  "node_yaml_dump v =
     (if has_undefined v
      then Inl (Error ''unacceptable kind of an object to dump [object Undefined]'')
      else Inr (stringify [] v @ [CHR 0x0A]))"

definition node :: platform where
  "node =
     \<lparr>decodeURIComponent = node_decodeURIComponent,
      base64_utf8 = node_base64_utf8,
      JSON_parse = node_JSON_parse,
      URLSearchParams_get = node_URLSearchParams_get,
      yaml_dump = node_yaml_dump,
      JSON_stringify = node_JSON_stringify\<rparr>"


section \<open>Notions of the specification, and examples\<close>





text \<open>
  A link of the usual shape is \<^verbatim>\<open>scheme://user@host:port\<close> followed by a tail (a query, a
  fragment, or nothing): the user part and the host are not empty and hold no delimiter, the
  port is a decimal number without a leading zero, and the tail does not go on with a digit.
\<close>

definition no_leading_digit :: "string \<Rightarrow> bool" where
  "no_leading_digit t = (case t of [] \<Rightarrow> True | c # _ \<Rightarrow> \<not> is_digit c)"

definition decimal :: "string \<Rightarrow> bool" where
  "decimal ds = (ds \<noteq> [] \<and> list_all is_digit ds)"

definition host_chars :: "string \<Rightarrow> bool" where
  "host_chars host =
     (host \<noteq> [] \<and> CHR ''@'' \<notin> set host \<and> CHR '':'' \<notin> set host
      \<and> CHR ''?'' \<notin> set host \<and> CHR ''#'' \<notin> set host)"

definition user_chars :: "string \<Rightarrow> bool" where
  "user_chars user =
     (user \<noteq> [] \<and> CHR ''@'' \<notin> set user \<and> CHR ''?'' \<notin> set user \<and> CHR ''#'' \<notin> set user)"

definition canonical_port :: "string \<Rightarrow> bool" where
  "canonical_port ds = (decimal ds \<and> (case ds of [] \<Rightarrow> False | c # _ \<Rightarrow> c \<noteq> CHR ''0''))"




subsection \<open>Example links\<close>

definition example_vless :: string where
  "example_vless =
     ''vless://b831381d-6324-4d53-ad4f-8cda48b30811@example.com:443?security=reality&type=ws&pbk=KEY#My%20Node''"

definition example_vless_bad_port :: string where
  "example_vless_bad_port =
     ''vless://b831381d-6324-4d53-ad4f-8cda48b30811@example.com:abc?security=tls#n''"


text \<open>
  The payload of \<open>example_vmess\<close> is the base64 text of
  \<^verbatim>\<open>{"v":"2","ps":"demo","add":"example.com","port":"443","id":"b831381d-6324-4d53-ad4f-8cda48b30811","aid":"0","net":"ws","type":"none","host":"example.com","path":"/","tls":"tls"}\<close>.
\<close>

definition example_vmess :: string where
  "example_vmess =
     ''vmess://eyJ2IjoiMiIsInBzIjoiZGVtbyIsImFkZCI6ImV4YW1wbGUuY29tIiwicG9ydCI6IjQ0MyIsImlkIjoiYjgzMTM4MWQtNjMyNC00ZDUzLWFkNGYtOGNkYTQ4YjMwODExIiwiYWlkIjoiMCIsIm5ldCI6IndzIiwidHlwZSI6Im5vbmUiLCJob3N0IjoiZXhhbXBsZS5jb20iLCJwYXRoIjoiLyIsInRscyI6InRscyJ9''"


definition example_ss_not_base64 :: string where
  "example_ss_not_base64 = ''ss://!!!!@example.com:8388#SS''"

section \<open>Basic facts\<close>

lemma split_on_not_Nil: "split_on sep s \<noteq> []"
  by (induction s) (auto split: list.splits)

lemma map_of_obj_set:
  "map_of (obj_set ob k v) k' = (if k' = k then Some v else map_of ob k')"
proof (cases "k \<in> set (map fst ob)")
  case False
  then have "map_of ob k = None" by (simp add: map_of_eq_None_iff)
  with False show ?thesis by (auto simp: obj_set_def map_add_def split: option.splits)
next
  case True
  have "map_of (map (\<lambda>kv. if fst kv = k then (k, v) else kv) ob) k' =
        (if k' = k then (if k \<in> set (map fst ob) then Some v else None) else map_of ob k')"
    by (induction ob) (auto simp: rev_image_eqI)
  with True show ?thesis by (simp add: obj_set_def)
qed

lemma js_get_obj_set:
  "js_get (obj_set ob k v) k' = (if k' = k then v else js_get ob k')"
  by (simp add: js_get_def map_of_obj_set)

lemma js_get_set_if:
  "js_get (set_if ob k v) k' = (if k' = k \<and> truthy v then v else js_get ob k')"
  by (simp add: set_if_def js_get_obj_set)

lemma map_of_foldl_obj_set:
  "map_of (foldl (\<lambda>ob kv. obj_set ob (fst kv) (snd kv)) ob0 kvs) k =
     (case map_of (rev kvs) k of Some v \<Rightarrow> Some v | None \<Rightarrow> map_of ob0 k)"
  by (induction kvs arbitrary: ob0) (auto simp: map_of_obj_set map_add_def split: option.splits)

lemma js_get_obj_lit:
  "js_get (obj_lit kvs) k = (case map_of (rev kvs) k of Some v \<Rightarrow> v | None \<Rightarrow> Undefined)"
  by (simp add: obj_lit_def js_get_def map_of_foldl_obj_set split: option.splits)

subsection \<open>The batch loop\<close>

lemma process_loop_eq:
  "process_loop P s i links results =
     results @ map (\<lambda>(j, l). process_link P s j l) (zip [i ..< i + length links] links)"
proof (induction links arbitrary: i results)
  case Nil
  then show ?case by simp
next
  case (Cons l ls)
  have "[i ..< i + length (l # ls)] = i # [Suc i ..< Suc i + length ls]"
    by (simp add: upt_rec)
  then show ?case using Cons.IH [of "Suc i" "results @ [process_link P s i l]"] by simp
qed

lemma processLinks_eq:
  "processLinks P links s = map (\<lambda>(j, l). process_link P s j l) (zip [0 ..< length links] links)"
  by (simp add: processLinks_def process_loop_eq)


lemma processLinks_nth:
  "i < length links \<Longrightarrow> processLinks P links s ! i = process_link P s i (links ! i)"
  by (simp add: processLinks_eq)



subsection \<open>The extraction loop\<close>







subsection \<open>Records and serializers\<close>

lemma vless_record_fields:
  "js_get (vless_record uuid host port ps name) ''type'' = Str ''vless''"
  "js_get (vless_record uuid host port ps name) ''uuid'' = Str uuid"
  "js_get (vless_record uuid host port ps name) ''host'' = Str host"
  "js_get (vless_record uuid host port ps name) ''port'' = Num (parseInt_opt port)"
  "js_get (vless_record uuid host port ps name) ''security'' = Str (param_or ps ''security'' ''none'')"
  "js_get (vless_record uuid host port ps name) ''flow'' = Str (param_or ps ''flow'' [])"
  "js_get (vless_record uuid host port ps name) ''network'' = Str (param_or ps ''type'' ''tcp'')"
  "js_get (vless_record uuid host port ps name) ''path''
     = Str (param_or ps ''path'' (if ps ''type'' = Some ''ws'' then ''/'' else []))"
  "js_get (vless_record uuid host port ps name) ''host_header'' = Str (param_or ps ''host'' [])"
  "js_get (vless_record uuid host port ps name) ''sni''
     = Str (param_or ps ''sni'' (param_or ps ''host'' host))"
  "js_get (vless_record uuid host port ps name) ''fp'' = Str (param_or ps ''fp'' [])"
  "js_get (vless_record uuid host port ps name) ''pbk'' = Str (param_or ps ''pbk'' [])"
  "js_get (vless_record uuid host port ps name) ''sid'' = Str (param_or ps ''sid'' [])"
  "js_get (vless_record uuid host port ps name) ''spx'' = Str (param_or ps ''spx'' [])"
  "js_get (vless_record uuid host port ps name) ''alpn'' = Str (param_or ps ''alpn'' [])"
  "js_get (vless_record uuid host port ps name) ''allowInsecure'' = Bool (allow_insecure ps)"
  "js_get (vless_record uuid host port ps name) ''name'' = Str name"
  "js_get (vless_record uuid host port ps name) ''tls'' = Undefined"
  "js_get (vless_record uuid host port ps name) ''serviceName'' = Undefined"
  by (simp_all add: vless_record_def js_get_obj_lit)

lemma parseVLESS_record:
  assumes "parseVLESS P link = Inr parsed"
  shows "\<exists>uuid host port ps name.
           vless_link_params P link = Inr ps \<and> parsed = vless_record uuid host port ps name"
  using assms
  by (auto simp: parseVLESS_def Let_def split: if_splits option.splits sum.splits)

lemma js_get_named_config:
  "js_get (named_config parsed s i) k =
     (if k = ''network'' then js_or (js_get parsed ''network'') (Str ''tcp'')
      else if k = ''name'' then Str (configName parsed s i)
      else js_get parsed k)"
  by (simp add: named_config_def js_get_obj_set)

lemma js_get_clash_ws:
  "k \<noteq> ''network'' \<Longrightarrow> k \<noteq> ''ws-path'' \<Longrightarrow> k \<noteq> ''ws-headers''
   \<Longrightarrow> js_get (clash_ws config ob) k = js_get ob k"
  by (simp add: clash_ws_def Let_def js_get_obj_set)

lemma clash_set_alpn_Str:
  "clash_set_alpn ob (Str s) =
     Inr (if s = [] then ob
          else obj_set ob ''alpn'' (Arr (map (\<lambda>a. Str (trim a)) (split_on CHR '','' s))))"
  by (simp add: clash_set_alpn_def)

lemma singbox_set_alpn_Str:
  "singbox_set_alpn tls (Str s) =
     Inr (if s = [] then tls
          else obj_set tls ''alpn''
                 (Arr (map Str (filter (\<lambda>a. a \<noteq> []) (map trim (split_on CHR '','' s))))))"
  by (simp add: singbox_set_alpn_def)

lemma clash_base_fields:
  "js_get (clash_base config) ''server'' = js_get config ''host''"
  "js_get (clash_base config) ''port'' = js_get config ''port''"
  "js_get (clash_base config) ''servername'' = Undefined"
  "js_get (clash_base config) ''client-fingerprint'' = Undefined"
  by (simp_all add: clash_base_def js_get_obj_lit)






lemma vmess_record_type:
  "js_get (vmess_record P obj) ''type'' = js_or (val_get obj ''type'') (Str ''none'')"
  by (simp add: vmess_record_def js_get_obj_lit)

lemma parseVMess_type:
  assumes "parseVMess P link = Inr parsed"
  shows "\<exists>obj. JSON_parse P (base64_utf8 P (remove_first ''vmess://'' link)) = Some obj
           \<and> js_get parsed ''type'' = js_or (val_get obj ''type'') (Str ''none'')"
  using assms
  by (auto simp: parseVMess_def Let_def vmess_record_type split: if_splits option.splits)

lemma trojan_record_fields:
  "js_get (trojan_record password host port ps name) ''type'' = Str ''trojan''"
  "js_get (trojan_record password host port ps name) ''host'' = Str host"
  "js_get (trojan_record password host port ps name) ''port'' = Num port"
  by (simp_all add: trojan_record_def js_get_obj_lit)

lemma ss_record_fields:
  "js_get (ss_record method password host port plugin plugin_opts obfs obfsHost name) ''type''
     = Str ''ss''"
  "js_get (ss_record method password host port plugin plugin_opts obfs obfsHost name) ''host''
     = Str host"
  "js_get (ss_record method password host port plugin plugin_opts obfs obfsHost name) ''port''
     = Num port"
  "js_get (ss_record method password host port plugin plugin_opts obfs obfsHost name) ''method''
     = Str method"
  "js_get (ss_record method password host port plugin plugin_opts obfs obfsHost name) ''password''
     = password"
  by (simp_all add: ss_record_def js_get_obj_lit)

lemma parseVLESS_type: "parseVLESS P link = Inr parsed \<Longrightarrow> js_get parsed ''type'' = Str ''vless''"
  using parseVLESS_record [of P link parsed] by (auto simp: vless_record_fields)

lemma parseTrojan_type_port:
  assumes "parseTrojan P link = Inr parsed"
  shows "js_get parsed ''type'' = Str ''trojan'' \<and> js_get parsed ''port'' \<noteq> Num NaN"
  using assms
  by (auto simp: parseTrojan_def Let_def isNaN_def trojan_record_fields
           split: if_splits option.splits sum.splits)

lemma parseSS_type: "parseSS P link = Inr parsed \<Longrightarrow> js_get parsed ''type'' = Str ''ss''"
  by (auto simp: parseSS_def Let_def ss_record_fields split: if_splits option.splits)

lemma parseSS_never_reports_base64:
  "parseSS P link \<noteq> Inl (Error ''Invalid Shadowsocks base64 encoding'')"
  by (auto simp: parseSS_def Let_def not_a_string_def split: if_splits option.splits)

lemma unknown_type_not_serialized:
  assumes "js_get config ''type'' = Str ''none''"
  shows "toClash P config
           = Inl (Error (''Tidak dapat mengkonversi protokol '' @ quote ''none'' @ '' ke format Clash.''))"
    and "toSurge config = Inl (Error ''Unsupported type for Surge: none'')"
    and "toQuantumult config = Inl (Error ''Unsupported type for Quantumult: none'')"
  using assms
  by (simp_all add: toClash_def clash_object_def toSurge_def toQuantumult_def and_then_def)

lemma named_config_type: "js_get (named_config parsed s i) ''type'' = js_get parsed ''type''"
  by (simp add: js_get_named_config)

lemma singbox_reality_fingerprint:
  assumes "js_get config ''type'' = Str ''vless''"
    and "js_get config ''security'' = Str ''reality''"
    and "js_get config ''alpn'' = Str alpn"
  shows "\<exists>ob tls utls. singbox_object config = Inr ob \<and> js_get ob ''tls'' = Obj tls
           \<and> js_get tls ''utls'' = Obj utls
           \<and> js_get utls ''fingerprint'' = js_or (js_get config ''fp'') (Str ''chrome'')"
  using assms
  by (auto simp: singbox_object_def singbox_v_tls_def Let_def and_then_def singbox_set_alpn_Str
                 js_get_obj_set js_get_set_if singbox_utls_def js_get_obj_lit)

lemma clash_reality_client_fingerprint:
  assumes "js_get config ''type'' = Str ''vless''"
    and "js_get config ''security'' = Str ''reality''"
    and "js_get config ''alpn'' = Str alpn"
  shows "\<exists>ob. clash_object config = Inr ob
           \<and> js_get ob ''client-fingerprint'' = js_get config ''fp''"
  using assms
  by (auto simp: clash_object_def clash_vless_def Let_def and_then_def clash_set_alpn_Str
                 js_get_clash_ws js_get_obj_set js_get_set_if clash_base_fields)

subsection \<open>Links of the usual shape\<close>

lemma first_of_split_on: "first_of (split_on c s) = takeWhile (\<lambda>x. x \<noteq> c) s"
  by (induction s) (auto simp: first_of_def split: list.splits)

lemma split_on_append_sep:
  "c \<notin> set a \<Longrightarrow> split_on c (a @ c # b) = a # split_on c b"
  by (induction a) (auto split: list.splits)

lemma split_on_no_sep: "c \<notin> set a \<Longrightarrow> split_on c a = [a]"
  by (induction a) (auto split: list.splits)

lemma second_of_split_on:
  "c \<notin> set a \<Longrightarrow> second_of (split_on c (a @ c # b)) = Some (takeWhile (\<lambda>x. x \<noteq> c) b)"
proof -
  assume "c \<notin> set a"
  then have "split_on c (a @ c # b) = a # split_on c b" by (rule split_on_append_sep)
  moreover have "split_on c b = first_of (split_on c b) # tl (split_on c b)"
    using split_on_not_Nil [of c b] by (cases "split_on c b") (auto simp: first_of_def)
  ultimately have "second_of (split_on c (a @ c # b)) = Some (first_of (split_on c b))"
    by (metis (no_types, lifting) list.simps(5) second_of_def)
  then show ?thesis by (simp add: first_of_split_on)
qed

lemma indexOf_eq:
  "indexOf s c = (if c \<in> set s then Some (length (takeWhile (\<lambda>x. x \<noteq> c) s)) else None)"
  by (induction s) auto

lemma digits_value_snoc:
  "digits_value (xs @ [x]) = 10 * digits_value xs + (int (of_char x) - 48)"
  by (simp add: digits_value_def)

lemma digit_char_value: "k < 10 \<Longrightarrow> int (of_char (digit_char k)) - 48 = int k"
  by (simp add: digit_char_def)

lemma nat_to_string_digits: "digits_value (nat_to_string n) = int n"
proof (induction n rule: nat_to_string.induct)
  case (1 n)
  show ?case
  proof (cases "n < 10")
    case True
    then have "nat_to_string n = [digit_char n]" by (subst nat_to_string.simps) simp
    with True show ?thesis using digits_value_snoc [of "[]" "digit_char n"]
      by (simp add: digit_char_value digits_value_def)
  next
    case False
    then have unfold: "nat_to_string n = nat_to_string (n div 10) @ [digit_char (n mod 10)]"
      by (subst nat_to_string.simps) simp
    from False 1 have "digits_value (nat_to_string (n div 10)) = int (n div 10)" by simp
    then have "digits_value (nat_to_string n) = 10 * int (n div 10) + int (n mod 10)"
      by (simp add: unfold digits_value_snoc digit_char_value)
    also have "\<dots> = int n" by presburger
    finally show ?thesis .
  qed
qed

lemma remove_first_prefix:
  assumes "p \<noteq> []"
  shows "remove_first p (p @ s) = s"
proof -
  from assms obtain c cs where eq: "p @ s = c # cs" by (cases p) auto
  have "prefix p (c # cs)" by (metis eq prefixI)
  moreover have "drop (length p) (c # cs) = s" by (metis eq append_eq_conv_conj)
  ultimately show ?thesis by (simp add: eq)
qed

lemma takeWhile_stop:
  "c \<notin> set a \<Longrightarrow> takeWhile (\<lambda>x. x \<noteq> c) (a @ c # b) = a"
  by (induction a) auto

lemma no_leading_digit_takeWhile: "no_leading_digit t \<Longrightarrow> no_leading_digit (takeWhile Q t)"
  by (cases t) (auto simp: no_leading_digit_def)

lemma is_digit_not_space: "is_digit c \<Longrightarrow> \<not> is_space c"
  by (auto simp: is_digit_def is_space_def)

lemma is_digit_not_sign: "is_digit c \<Longrightarrow> c \<noteq> CHR ''-'' \<and> c \<noteq> CHR ''+''"
  by (auto simp: is_digit_def)

lemma takeWhile_digits:
  "list_all is_digit ds \<Longrightarrow> no_leading_digit t \<Longrightarrow> takeWhile is_digit (ds @ t) = ds"
  by (induction ds) (auto simp: no_leading_digit_def split: list.splits)

lemma parseInt_digits:
  assumes "decimal ds" and "no_leading_digit t"
  shows "parseInt (ds @ t) = Fin (digits_value ds)"
proof -
  from assms(1) obtain d ds' where ds: "ds = d # ds'" and d: "is_digit d"
    by (cases ds) (auto simp: decimal_def)
  from assms have tw: "takeWhile is_digit (ds @ t) = ds"
    by (simp add: decimal_def takeWhile_digits)
  from d have "dropWhile is_space (ds @ t) = ds @ t"
    by (simp add: ds is_digit_not_space)
  moreover from d have "d \<noteq> CHR ''-''" "d \<noteq> CHR ''+''"
    using is_digit_not_sign by auto
  ultimately show ?thesis
    using tw by (simp add: parseInt_def Let_def ds)
qed

lemma takeWhile_append_all:
  "\<forall>x \<in> set a. Q x \<Longrightarrow> takeWhile Q (a @ b) = a @ takeWhile Q b"
  by (simp add: takeWhile_append2)

lemma digit_not_delim:
  "is_digit c \<Longrightarrow> c \<noteq> CHR ''@'' \<and> c \<noteq> CHR '':'' \<and> c \<noteq> CHR ''?'' \<and> c \<noteq> CHR ''#''"
  by (auto simp: is_digit_def)

lemma decimal_no_delim:
  assumes "decimal ds"
  shows "CHR ''@'' \<notin> set ds" "CHR '':'' \<notin> set ds" "CHR ''?'' \<notin> set ds" "CHR ''#'' \<notin> set ds"
  using assms digit_not_delim by (auto simp: decimal_def list_all_iff)

lemma cut_host_port:
  assumes "c \<notin> set host" and "c \<noteq> CHR '':''" and "c \<notin> set port"
  shows "takeWhile (\<lambda>x. x \<noteq> c) (host @ CHR '':'' # port @ tail)
           = host @ CHR '':'' # port @ takeWhile (\<lambda>x. x \<noteq> c) tail"
proof -
  from assms(1) have "takeWhile (\<lambda>x. x \<noteq> c) (host @ CHR '':'' # port @ tail)
        = host @ takeWhile (\<lambda>x. x \<noteq> c) (CHR '':'' # port @ tail)"
    by (intro takeWhile_append_all) auto
  also from assms(2) have "\<dots> = host @ CHR '':'' # takeWhile (\<lambda>x. x \<noteq> c) (port @ tail)"
    by simp
  also from assms(3) have "takeWhile (\<lambda>x. x \<noteq> c) (port @ tail) = port @ takeWhile (\<lambda>x. x \<noteq> c) tail"
    by (intro takeWhile_append_all) auto
  finally show ?thesis by simp
qed

lemma host_port_of:
  assumes "CHR '':'' \<notin> set host" and "decimal port" and "no_leading_digit t"
  shows "first_of (split_on CHR '':'' (host @ CHR '':'' # port @ t)) = host"
    and "parseInt_opt (second_of (split_on CHR '':'' (host @ CHR '':'' # port @ t)))
           = Fin (digits_value port)"
proof -
  from assms(1) show "first_of (split_on CHR '':'' (host @ CHR '':'' # port @ t)) = host"
    by (simp add: first_of_split_on takeWhile_stop)
  from assms(1) have "second_of (split_on CHR '':'' (host @ CHR '':'' # port @ t))
          = Some (takeWhile (\<lambda>x. x \<noteq> CHR '':'') (port @ t))"
    by (rule second_of_split_on)
  also from assms(2) have "takeWhile (\<lambda>x. x \<noteq> CHR '':'') (port @ t)
          = port @ takeWhile (\<lambda>x. x \<noteq> CHR '':'') t"
    using decimal_no_delim(2) by (intro takeWhile_append_all) auto
  finally show "parseInt_opt (second_of (split_on CHR '':'' (host @ CHR '':'' # port @ t)))
           = Fin (digits_value port)"
    using assms(2,3) by (simp add: parseInt_opt_def parseInt_digits no_leading_digit_takeWhile)
qed

lemma parseVLESS_host_port:
  assumes "parseVLESS P link = Inr parsed"
  shows "\<exists>rest. vless_rest link = Some rest
           \<and> js_get parsed ''host''
               = Str (first_of (split_on CHR '':'' (first_of (split_on CHR ''?'' rest))))
           \<and> js_get parsed ''port''
               = Num (parseInt_opt
                        (second_of (split_on CHR '':'' (first_of (split_on CHR ''?'' rest)))))"
  using assms
  by (auto simp: parseVLESS_def Let_def vless_record_fields
           split: if_splits option.splits sum.splits)

lemma parseVLESS_shaped:
  assumes "parseVLESS P (''vless://'' @ uuid @ ''@'' @ host @ '':'' @ port @ tail) = Inr parsed"
    and "CHR ''@'' \<notin> set uuid" and "host_chars host" and "decimal port"
    and "no_leading_digit tail"
  shows "js_get parsed ''host'' = Str host \<and> js_get parsed ''port'' = Num (Fin (digits_value port))"
proof -
  let ?link = "''vless://'' @ uuid @ ''@'' @ host @ '':'' @ port @ tail"
  let ?t1 = "takeWhile (\<lambda>x. x \<noteq> CHR ''@'') tail"
  let ?t2 = "takeWhile (\<lambda>x. x \<noteq> CHR ''?'') ?t1"
  have clean: "remove_first ''vless://'' ?link = uuid @ CHR ''@'' # (host @ CHR '':'' # port @ tail)"
    using remove_first_prefix [of "''vless://''" "uuid @ ''@'' @ host @ '':'' @ port @ tail"]
    by simp
  have "vless_rest ?link
          = Some (takeWhile (\<lambda>x. x \<noteq> CHR ''@'') (host @ CHR '':'' # port @ tail))"
    unfolding vless_rest_def clean using assms(2) by (rule second_of_split_on)
  moreover have "takeWhile (\<lambda>x. x \<noteq> CHR ''@'') (host @ CHR '':'' # port @ tail)
          = host @ CHR '':'' # port @ ?t1"
    using assms(3,4) decimal_no_delim(1) by (intro cut_host_port) (auto simp: host_chars_def)
  ultimately have rest: "vless_rest ?link = Some (host @ CHR '':'' # port @ ?t1)"
    by simp
  have "takeWhile (\<lambda>x. x \<noteq> CHR ''?'') (host @ CHR '':'' # port @ ?t1)
          = host @ CHR '':'' # port @ ?t2"
    using assms(3,4) decimal_no_delim(3) by (intro cut_host_port) (auto simp: host_chars_def)
  then have hostport: "first_of (split_on CHR ''?'' (host @ CHR '':'' # port @ ?t1))
                    = host @ CHR '':'' # port @ ?t2"
    by (simp only: first_of_split_on)
  have nl: "no_leading_digit ?t2"
    using assms(5) by (simp add: no_leading_digit_takeWhile)
  from assms(3) have colon: "CHR '':'' \<notin> set host" by (simp add: host_chars_def)
  note hp = host_port_of [OF colon assms(4) nl]
  from parseVLESS_host_port [OF assms(1)] obtain r where
    r: "vless_rest ?link = Some r"
    and h: "js_get parsed ''host''
              = Str (first_of (split_on CHR '':'' (first_of (split_on CHR ''?'' r))))"
    and p: "js_get parsed ''port''
              = Num (parseInt_opt (second_of (split_on CHR '':'' (first_of (split_on CHR ''?'' r)))))"
    by blast
  from r rest have "r = host @ CHR '':'' # port @ ?t1" by simp
  with h p show ?thesis by (simp only: hostport hp simp_thms)
qed

lemma take_indexOf:
  "(case indexOf s c of None \<Rightarrow> s | Some i \<Rightarrow> take i s) = takeWhile (\<lambda>x. x \<noteq> c) s"
proof (cases "c \<in> set s")
  case True
  then show ?thesis by (simp add: indexOf_eq takeWhile_eq_take [symmetric])
next
  case False
  then have tw: "takeWhile (\<lambda>x. x \<noteq> c) s = s" by (auto simp: takeWhile_eq_all_conv)
  from False have idx: "indexOf s c = None" by (simp add: indexOf_eq)
  show ?thesis by (simp only: idx option.case tw)
qed

lemma trojan_segments_fst:
  "fst (trojan_segments s)
     = (if CHR ''?'' \<in> set s then takeWhile (\<lambda>x. x \<noteq> CHR ''?'') s
        else takeWhile (\<lambda>x. x \<noteq> CHR ''#'') s)"
proof (cases "CHR ''?'' \<in> set s")
  case True
  then have "fst (trojan_segments s) = take (length (takeWhile (\<lambda>x. x \<noteq> CHR ''?'') s)) s"
    by (auto simp: trojan_segments_def indexOf_eq substring_def)
  with True show ?thesis by (simp add: takeWhile_eq_take [symmetric])
next
  case False
  then have "fst (trojan_segments s) = (case indexOf s CHR ''#'' of None \<Rightarrow> s | Some i \<Rightarrow> take i s)"
    by (auto simp: trojan_segments_def indexOf_eq substring_def)
  with False show ?thesis by (simp only: take_indexOf if_False)
qed

lemma parseTrojan_host_port:
  assumes "parseTrojan P link = Inr parsed"
  shows "\<exists>serverinfo.
           second_of (split_on CHR ''@'' (fst (trojan_segments (drop (length ''trojan://'') link))))
             = Some serverinfo
           \<and> js_get parsed ''host'' = Str (first_of (split_on CHR '':'' serverinfo))
           \<and> js_get parsed ''port''
               = Num (parseInt_opt (second_of (split_on CHR '':'' serverinfo)))"
  using assms
  by (auto simp: parseTrojan_def Let_def trojan_record_fields substring_from_def
           split: if_splits option.splits sum.splits)

lemma cut_user_host_port:
  assumes "c \<notin> set user" and "c \<noteq> CHR ''@''" and "c \<notin> set host" and "c \<noteq> CHR '':''"
    and "c \<notin> set port"
  shows "takeWhile (\<lambda>x. x \<noteq> c) (user @ CHR ''@'' # host @ CHR '':'' # port @ tail)
           = user @ CHR ''@'' # host @ CHR '':'' # port @ takeWhile (\<lambda>x. x \<noteq> c) tail"
proof -
  from assms(1) have "takeWhile (\<lambda>x. x \<noteq> c) (user @ CHR ''@'' # host @ CHR '':'' # port @ tail)
        = user @ takeWhile (\<lambda>x. x \<noteq> c) (CHR ''@'' # host @ CHR '':'' # port @ tail)"
    by (intro takeWhile_append_all) auto
  also from assms(2) have "\<dots> = user @ CHR ''@'' # takeWhile (\<lambda>x. x \<noteq> c) (host @ CHR '':'' # port @ tail)"
    by simp
  finally show ?thesis using cut_host_port [OF assms(3-5)] by simp
qed

lemma parseTrojan_shaped:
  assumes "parseTrojan P (''trojan://'' @ user @ ''@'' @ host @ '':'' @ port @ tail) = Inr parsed"
    and "user_chars user" and "host_chars host" and "decimal port"
    and "no_leading_digit tail"
  shows "js_get parsed ''host'' = Str host \<and> js_get parsed ''port'' = Num (Fin (digits_value port))"
proof -
  let ?link = "''trojan://'' @ user @ ''@'' @ host @ '':'' @ port @ tail"
  let ?clean = "user @ CHR ''@'' # host @ CHR '':'' # port @ tail"
  have clean: "drop (length ''trojan://'') ?link = ?clean" by simp
  have "\<exists>c. (c = CHR ''?'' \<or> c = CHR ''#'')
            \<and> fst (trojan_segments ?clean) = takeWhile (\<lambda>x. x \<noteq> c) ?clean"
  proof (cases "CHR ''?'' \<in> set ?clean")
    case True
    then have "fst (trojan_segments ?clean) = takeWhile (\<lambda>x. x \<noteq> CHR ''?'') ?clean"
      by (simp only: trojan_segments_fst if_True)
    then show ?thesis by blast
  next
    case False
    then have "fst (trojan_segments ?clean) = takeWhile (\<lambda>x. x \<noteq> CHR ''#'') ?clean"
      by (simp only: trojan_segments_fst if_False)
    then show ?thesis by blast
  qed
  then obtain c where c: "c = CHR ''?'' \<or> c = CHR ''#''"
    and seg: "fst (trojan_segments ?clean) = takeWhile (\<lambda>x. x \<noteq> c) ?clean"
    by blast
  let ?t1 = "takeWhile (\<lambda>x. x \<noteq> c) tail"
  let ?t2 = "takeWhile (\<lambda>x. x \<noteq> CHR ''@'') ?t1"
  have "takeWhile (\<lambda>x. x \<noteq> c) ?clean = user @ CHR ''@'' # host @ CHR '':'' # port @ ?t1"
    using c assms(2-4) decimal_no_delim(3,4)
    by (intro cut_user_host_port) (auto simp: user_chars_def host_chars_def)
  with seg have seg': "fst (trojan_segments ?clean) = user @ CHR ''@'' # (host @ CHR '':'' # port @ ?t1)"
    by simp
  have "second_of (split_on CHR ''@'' (fst (trojan_segments ?clean)))
          = Some (takeWhile (\<lambda>x. x \<noteq> CHR ''@'') (host @ CHR '':'' # port @ ?t1))"
    unfolding seg' using assms(2) by (intro second_of_split_on) (simp add: user_chars_def)
  moreover have "takeWhile (\<lambda>x. x \<noteq> CHR ''@'') (host @ CHR '':'' # port @ ?t1)
          = host @ CHR '':'' # port @ ?t2"
    using assms(3,4) decimal_no_delim(1) by (intro cut_host_port) (auto simp: host_chars_def)
  ultimately have si: "second_of (split_on CHR ''@'' (fst (trojan_segments ?clean)))
          = Some (host @ CHR '':'' # port @ ?t2)"
    by simp
  have nl: "no_leading_digit ?t2"
    using assms(5) by (simp add: no_leading_digit_takeWhile)
  from assms(3) have colon: "CHR '':'' \<notin> set host" by (simp add: host_chars_def)
  note hp = host_port_of [OF colon assms(4) nl]
  from parseTrojan_host_port [OF assms(1)] obtain r where
    r: "second_of (split_on CHR ''@'' (fst (trojan_segments (drop (length ''trojan://'') ?link))))
          = Some r"
    and h: "js_get parsed ''host'' = Str (first_of (split_on CHR '':'' r))"
    and p: "js_get parsed ''port'' = Num (parseInt_opt (second_of (split_on CHR '':'' r)))"
    by blast
  from r have "r = host @ CHR '':'' # port @ ?t2"
    unfolding clean si by simp
  with h p show ?thesis by (simp only: hp simp_thms)
qed

lemma parseSS_host_port:
  assumes "parseSS P link = Inr parsed"
  shows "\<exists>hostport portWithParams.
           second_of (split_on CHR ''@''
              (remove_first ''ss://''
                 (case indexOf link CHR ''#'' of None \<Rightarrow> link | Some i \<Rightarrow> take i link)))
             = Some hostport
           \<and> second_of (split_on CHR '':'' hostport) = Some portWithParams
           \<and> js_get parsed ''host'' = Str (first_of (split_on CHR '':'' hostport))
           \<and> js_get parsed ''port'' = Num (parseInt (first_of (split_on CHR ''?'' portWithParams)))"
  using assms
  by (auto simp: parseSS_def Let_def ss_record_fields substring_def
           split: if_splits option.splits)

lemma parseSS_shaped:
  assumes "parseSS P (''ss://'' @ user @ ''@'' @ host @ '':'' @ port @ tail) = Inr parsed"
    and "user_chars user" and "host_chars host" and "decimal port"
    and "no_leading_digit tail"
  shows "js_get parsed ''host'' = Str host \<and> js_get parsed ''port'' = Num (Fin (digits_value port))"
proof -
  let ?link = "''ss://'' @ user @ ''@'' @ host @ '':'' @ port @ tail"
  let ?t1 = "takeWhile (\<lambda>x. x \<noteq> CHR ''#'') tail"
  let ?t2 = "takeWhile (\<lambda>x. x \<noteq> CHR ''@'') ?t1"
  let ?t3 = "takeWhile (\<lambda>x. x \<noteq> CHR '':'') ?t2"
  let ?t4 = "takeWhile (\<lambda>x. x \<noteq> CHR ''?'') ?t3"
  have "takeWhile (\<lambda>x. x \<noteq> CHR ''#'') ?link
          = ''ss://'' @ takeWhile (\<lambda>x. x \<noteq> CHR ''#'') (user @ CHR ''@'' # host @ CHR '':'' # port @ tail)"
    by simp
  also have "takeWhile (\<lambda>x. x \<noteq> CHR ''#'') (user @ CHR ''@'' # host @ CHR '':'' # port @ tail)
          = user @ CHR ''@'' # host @ CHR '':'' # port @ ?t1"
    using assms(2-4) decimal_no_delim(4)
    by (intro cut_user_host_port) (auto simp: user_chars_def host_chars_def)
  finally have pre: "(case indexOf ?link CHR ''#'' of None \<Rightarrow> ?link | Some i \<Rightarrow> take i ?link)
          = ''ss://'' @ (user @ CHR ''@'' # host @ CHR '':'' # port @ ?t1)"
    by (simp only: take_indexOf)
  have clean: "remove_first ''ss://''
                 (case indexOf ?link CHR ''#'' of None \<Rightarrow> ?link | Some i \<Rightarrow> take i ?link)
               = user @ CHR ''@'' # (host @ CHR '':'' # port @ ?t1)"
    unfolding pre by (rule remove_first_prefix) simp
  have "second_of (split_on CHR ''@'' (user @ CHR ''@'' # (host @ CHR '':'' # port @ ?t1)))
          = Some (takeWhile (\<lambda>x. x \<noteq> CHR ''@'') (host @ CHR '':'' # port @ ?t1))"
    using assms(2) by (intro second_of_split_on) (simp add: user_chars_def)
  moreover have "takeWhile (\<lambda>x. x \<noteq> CHR ''@'') (host @ CHR '':'' # port @ ?t1)
          = host @ CHR '':'' # port @ ?t2"
    using assms(3,4) decimal_no_delim(1) by (intro cut_host_port) (auto simp: host_chars_def)
  ultimately have hostport:
    "second_of (split_on CHR ''@'' (user @ CHR ''@'' # (host @ CHR '':'' # port @ ?t1)))
       = Some (host @ CHR '':'' # port @ ?t2)"
    by simp
  from assms(3) have colon: "CHR '':'' \<notin> set host" by (simp add: host_chars_def)
  have "second_of (split_on CHR '':'' (host @ CHR '':'' # port @ ?t2))
          = Some (takeWhile (\<lambda>x. x \<noteq> CHR '':'') (port @ ?t2))"
    using colon by (rule second_of_split_on)
  moreover have "takeWhile (\<lambda>x. x \<noteq> CHR '':'') (port @ ?t2) = port @ ?t3"
    using assms(4) decimal_no_delim(2) by (intro takeWhile_append_all) auto
  ultimately have pwp: "second_of (split_on CHR '':'' (host @ CHR '':'' # port @ ?t2))
          = Some (port @ ?t3)"
    by simp
  have "takeWhile (\<lambda>x. x \<noteq> CHR ''?'') (port @ ?t3) = port @ ?t4"
    using assms(4) decimal_no_delim(3) by (intro takeWhile_append_all) auto
  then have portPart: "first_of (split_on CHR ''?'' (port @ ?t3)) = port @ ?t4"
    by (simp only: first_of_split_on)
  have nl: "no_leading_digit ?t4"
    using assms(5) by (simp add: no_leading_digit_takeWhile)
  have host: "first_of (split_on CHR '':'' (host @ CHR '':'' # port @ ?t2)) = host"
    using colon by (simp add: first_of_split_on takeWhile_stop)
  from parseSS_host_port [OF assms(1)] obtain hp pw where
    a: "second_of (split_on CHR ''@''
              (remove_first ''ss://''
                 (case indexOf ?link CHR ''#'' of None \<Rightarrow> ?link | Some i \<Rightarrow> take i ?link)))
             = Some hp"
    and b: "second_of (split_on CHR '':'' hp) = Some pw"
    and h: "js_get parsed ''host'' = Str (first_of (split_on CHR '':'' hp))"
    and p: "js_get parsed ''port'' = Num (parseInt (first_of (split_on CHR ''?'' pw)))"
    by blast
  from a have hp: "hp = host @ CHR '':'' # port @ ?t2"
    unfolding clean hostport by simp
  with b have pw: "pw = port @ ?t3"
    unfolding hp pwp by simp
  from h p show ?thesis
    unfolding hp pw host portPart using assms(4) nl by (simp add: parseInt_digits)
qed

lemma digit_char_of_digit: "is_digit x \<Longrightarrow> digit_char (of_char x - 48) = x"
proof -
  assume "is_digit x"
  then have "48 + ((of_char x :: nat) - 48) = of_char x" by (simp add: is_digit_def)
  then show ?thesis by (simp add: digit_char_def)
qed

lemma digit_value_range: "is_digit x \<Longrightarrow> 0 \<le> int (of_char x) - 48 \<and> int (of_char x) - 48 < 10"
  by (auto simp: is_digit_def)

lemma canonical_render:
  assumes "ds \<noteq> []" and "list_all is_digit ds" and "hd ds \<noteq> CHR ''0''"
  shows "nat_to_string (nat (digits_value ds)) = ds \<and> 1 \<le> digits_value ds"
  using assms
proof (induction ds rule: rev_induct)
  case Nil
  then show ?case by simp
next
  case (snoc x xs)
  from snoc.prems have x: "is_digit x" by simp
  let ?d = "int (of_char x) - 48"
  from x have d: "0 \<le> ?d" "?d < 10" using digit_value_range by auto
  have dn: "nat ?d = of_char x - 48" by simp
  show ?case
  proof (cases "xs = []")
    case True
    with snoc.prems have "x \<noteq> CHR ''0''" by simp
    with x have "1 \<le> ?d"
      using of_char_eq_iff [of x "CHR ''0''", where ?'a = nat] by (auto simp: is_digit_def)
    moreover have "digits_value [x] = ?d" by (simp add: digits_value_def)
    moreover from d have "nat_to_string (nat ?d) = [digit_char (nat ?d)]"
      by (subst nat_to_string.simps) simp
    ultimately show ?thesis using True x by (simp add: dn digit_char_of_digit)
  next
    case False
    with snoc.prems have "list_all is_digit xs" "hd xs \<noteq> CHR ''0''" by auto
    with snoc.IH False have ih: "nat_to_string (nat (digits_value xs)) = xs"
      and pos: "1 \<le> digits_value xs" by auto
    let ?n = "nat (digits_value (xs @ [x]))"
    have v: "digits_value (xs @ [x]) = 10 * digits_value xs + ?d" by (rule digits_value_snoc)
    with pos d have big: "\<not> ?n < 10" by simp
    from v pos d have n: "?n = 10 * nat (digits_value xs) + nat ?d"
      by (simp add: nat_add_distrib nat_mult_distrib)
    from d have "nat ?d < 10" by simp
    with n have "?n div 10 = nat (digits_value xs)" "?n mod 10 = nat ?d"
      by simp_all
    with big have "nat_to_string ?n = nat_to_string (nat (digits_value xs)) @ [digit_char (nat ?d)]"
      by (subst nat_to_string.simps) simp
    with ih x have "nat_to_string ?n = xs @ [x]" by (simp add: dn digit_char_of_digit)
    moreover from v pos d have "1 \<le> digits_value (xs @ [x])" by simp
    ultimately show ?thesis by simp
  qed
qed

lemma canonical_port_render:
  assumes "canonical_port ds"
  shows "toString (Num (Fin (digits_value ds))) = ds"
proof -
  from assms have "ds \<noteq> []" "list_all is_digit ds" "hd ds \<noteq> CHR ''0''"
    by (auto simp: canonical_port_def decimal_def split: list.splits)
  from canonical_render [OF this] show ?thesis by (simp add: int_to_string_def)
qed

lemma js_get_clash_set_alpn:
  "clash_set_alpn ob v = Inr ob' \<Longrightarrow> k \<noteq> ''alpn'' \<Longrightarrow> js_get ob' k = js_get ob k"
  by (auto simp: clash_set_alpn_def js_get_obj_set split: if_splits jsval.splits)

lemma clash_set_alpn_server_port:
  "clash_set_alpn ob v = Inr ob'
   \<Longrightarrow> js_get ob' ''server'' = js_get ob ''server'' \<and> js_get ob' ''port'' = js_get ob ''port''"
  by (simp add: js_get_clash_set_alpn)

lemma js_get_clash_plugin:
  "clash_plugin config ob = Inr ob' \<Longrightarrow> k \<noteq> ''plugin'' \<Longrightarrow> k \<noteq> ''plugin-opts''
   \<Longrightarrow> js_get ob' k = js_get ob k"
  by (auto simp: clash_plugin_def and_then_def Let_def js_get_obj_set
           split: if_splits jsval.splits sum.splits)

lemma clash_vless_server_port:
  assumes "clash_vless config = Inr ob"
  shows "js_get ob ''server'' = js_get config ''host'' \<and> js_get ob ''port'' = js_get config ''port''"
  using assms
  by (auto simp: clash_vless_def and_then_def Let_def js_get_obj_set js_get_set_if
                 js_get_clash_ws clash_base_fields
           split: if_splits sum.splits dest!: clash_set_alpn_server_port)

lemma clash_vmess_server_port:
  assumes "clash_vmess config = Inr ob"
  shows "js_get ob ''server'' = js_get config ''host'' \<and> js_get ob ''port'' = js_get config ''port''"
  using assms
  by (auto simp: clash_vmess_def and_then_def Let_def js_get_obj_set js_get_set_if
                 js_get_clash_ws clash_base_fields
           split: if_splits sum.splits dest!: clash_set_alpn_server_port)

lemma clash_trojan_server_port:
  assumes "clash_trojan config = Inr ob"
  shows "js_get ob ''server'' = js_get config ''host'' \<and> js_get ob ''port'' = js_get config ''port''"
  using assms
  by (auto simp: clash_trojan_def and_then_def Let_def js_get_obj_set js_get_set_if
                 js_get_clash_ws clash_base_fields
           split: if_splits sum.splits dest!: clash_set_alpn_server_port)

lemma clash_ss_server_port:
  assumes "clash_ss config = Inr ob"
  shows "js_get ob ''server'' = js_get config ''host'' \<and> js_get ob ''port'' = js_get config ''port''"
  using js_get_clash_plugin [OF assms [unfolded clash_ss_def Let_def]]
  by (simp add: js_get_obj_set clash_base_fields)

lemma clash_object_server_port:
  assumes "clash_object config = Inr ob"
  shows "js_get ob ''server'' = js_get config ''host'' \<and> js_get ob ''port'' = js_get config ''port''"
  using assms clash_vless_server_port clash_vmess_server_port clash_trojan_server_port
    clash_ss_server_port
  by (auto simp: clash_object_def Let_def split: if_splits)

lemma singbox_base_fields:
  "js_get (singbox_base config) ''server'' = js_get config ''host''"
  "js_get (singbox_base config) ''server_port'' = js_get config ''port''"
  by (simp_all add: singbox_base_def js_get_obj_lit)

lemma js_get_singbox_ws:
  "k \<noteq> ''transport'' \<Longrightarrow> js_get (singbox_ws config ob) k = js_get ob k"
  by (simp add: singbox_ws_def js_get_obj_set)

lemma js_get_singbox_grpc:
  "k \<noteq> ''transport'' \<Longrightarrow> js_get (singbox_grpc config ob) k = js_get ob k"
  by (simp add: singbox_grpc_def js_get_obj_set)

lemma singbox_object_server_port:
  assumes "singbox_object config = Inr ob"
  shows "js_get ob ''server'' = js_get config ''host''
         \<and> js_get ob ''server_port'' = js_get config ''port''"
  using assms
  by (auto simp: singbox_object_def and_then_def Let_def js_get_obj_set js_get_set_if
                 js_get_singbox_ws js_get_singbox_grpc singbox_base_fields
           split: if_splits sum.splits)

lemma surge_line_sublist:
  "sublist (toString (js_get config ''host'') @ '', '' @ toString (js_get config ''port''))
     (surge_line config kind rest)"
proof -
  have "surge_line config kind rest
          = (toString (js_get config ''name'') @ '' = '' @ kind @ '', '')
            @ (toString (js_get config ''host'') @ '', '' @ toString (js_get config ''port''))
            @ ('', '' @ rest)"
    by (simp add: surge_line_def)
  then show ?thesis by (metis sublist_appendI)
qed

lemma toSurge_host_port:
  assumes "toSurge config = Inr text"
  shows "sublist (toString (js_get config ''host'') @ '', '' @ toString (js_get config ''port''))
           text"
  using assms surge_line_sublist
  by (auto simp: toSurge_def Let_def split: if_splits)

lemma quantumult_line_sublist:
  "sublist (toString (js_get config ''host'') @ '':'' @ toString (js_get config ''port''))
     (quantumult_line config kind rest)"
proof -
  have "quantumult_line config kind rest
          = (kind @ ''='')
            @ (toString (js_get config ''host'') @ '':'' @ toString (js_get config ''port''))
            @ ('', '' @ rest @ '', tag='' @ toString (js_get config ''name''))"
    by (simp add: quantumult_line_def)
  then show ?thesis by (metis sublist_appendI)
qed

lemma toQuantumult_host_port:
  assumes "toQuantumult config = Inr text"
  shows "sublist (toString (js_get config ''host'') @ '':'' @ toString (js_get config ''port''))
           text"
  using assms quantumult_line_sublist
  by (auto simp: toQuantumult_def Let_def split: if_splits)

lemma parseAnyLink_shaped:
  assumes "parseAnyLink P (scheme @ ''://'' @ user @ ''@'' @ host @ '':'' @ port @ tail) = Inr parsed"
    and "scheme = ''vless'' \<or> scheme = ''trojan'' \<or> scheme = ''ss''"
    and "user_chars user" and "host_chars host" and "decimal port" and "no_leading_digit tail"
  shows "js_get parsed ''host'' = Str host \<and> js_get parsed ''port'' = Num (Fin (digits_value port))"
proof -
  from assms(3) have at: "CHR ''@'' \<notin> set user" by (simp add: user_chars_def)
  from assms(2) consider "scheme = ''vless''" | "scheme = ''trojan''" | "scheme = ''ss''" by blast
  then show ?thesis
  proof cases
    case 1
    with assms(1) have "parseVLESS P (''vless://'' @ user @ ''@'' @ host @ '':'' @ port @ tail) = Inr parsed"
      by (simp add: parseAnyLink_def startsWith_def split: if_splits)
    from parseVLESS_shaped [OF this at assms(4-6)] show ?thesis .
  next
    case 2
    with assms(1) have "parseTrojan P (''trojan://'' @ user @ ''@'' @ host @ '':'' @ port @ tail) = Inr parsed"
      by (simp add: parseAnyLink_def startsWith_def split: if_splits)
    from parseTrojan_shaped [OF this assms(3-6)] show ?thesis .
  next
    case 3
    with assms(1) have "parseSS P (''ss://'' @ user @ ''@'' @ host @ '':'' @ port @ tail) = Inr parsed"
      by (simp add: parseAnyLink_def startsWith_def split: if_splits)
    from parseSS_shaped [OF this assms(3-6)] show ?thesis .
  qed
qed

lemma shaped_link_fragments:
  assumes "convert_link P s i (scheme @ ''://'' @ user @ ''@'' @ host @ '':'' @ port @ tail)
             = Inr (config, fs, tag)"
    and "scheme = ''vless'' \<or> scheme = ''trojan'' \<or> scheme = ''ss''"
    and "user_chars user" and "host_chars host" and "canonical_port port"
    and "no_leading_digit tail"
  shows "(\<exists>ob. clash_object config = Inr ob \<and> js_get ob ''server'' = Str host
               \<and> toString (js_get ob ''port'') = port)
       \<and> sublist (host @ '', '' @ port) (surge fs)
       \<and> sublist (host @ '':'' @ port) (quantumult fs)
       \<and> (\<exists>ob. singbox_object config = Inr ob \<and> js_get ob ''server'' = Str host
               \<and> toString (js_get ob ''server_port'') = port)"
proof -
  let ?link = "scheme @ ''://'' @ user @ ''@'' @ host @ '':'' @ port @ tail"
  from assms(5) have dec: "decimal port" by (simp add: canonical_port_def)
  from assms(1) obtain parsed where p: "parseAnyLink P ?link = Inr parsed"
    and cfg: "config = named_config parsed s i"
    and c: "toClash P config = Inr (clash fs)"
    and su: "toSurge config = Inr (surge fs)"
    and q: "toQuantumult config = Inr (quantumult fs)"
    and sb: "toSingBox P config = Inr (singbox fs)"
    unfolding convert_link_def and_then_def Let_def
    by (auto split: sum.splits)
  from parseAnyLink_shaped [OF p assms(2-4) dec assms(6)]
  have h: "js_get config ''host'' = Str host"
    and po: "js_get config ''port'' = Num (Fin (digits_value port))"
    by (simp_all add: cfg js_get_named_config)
  from po have pt: "toString (js_get config ''port'') = port"
    using canonical_port_render [OF assms(5)] by simp
  from c obtain ob1 where o1: "clash_object config = Inr ob1"
    by (auto simp: toClash_def and_then_def split: sum.splits)
  from sb obtain ob2 where o2: "singbox_object config = Inr ob2"
    by (auto simp: toSingBox_def and_then_def split: sum.splits)
  from clash_object_server_port [OF o1] h pt
  have "js_get ob1 ''server'' = Str host \<and> toString (js_get ob1 ''port'') = port" by simp
  moreover from singbox_object_server_port [OF o2] h pt
  have "js_get ob2 ''server'' = Str host \<and> toString (js_get ob2 ''server_port'') = port" by simp
  moreover from toSurge_host_port [OF su] h pt
  have "sublist (host @ '', '' @ port) (surge fs)" by simp
  moreover from toQuantumult_host_port [OF q] h pt
  have "sublist (host @ '':'' @ port) (quantumult fs)" by simp
  ultimately show ?thesis using o1 o2 by blast
qed

subsection \<open>Template loading\<close>

lemma loadTemplate_cached:
  "cache st (format @ '':'' @ level) = Some t \<Longrightarrow> loadTemplate fs st format level = (Inr t, st)"
  by (subst loadTemplate.simps) simp

lemma loadTemplate_basic_failure:
  assumes "cache st (format @ '':basic'') = None"
    and "fs format (''basic.'' @ extension_of format) = Inl err"
  shows "loadTemplate fs st format ''basic''
           = (Inl (load_failure format ''basic'' err),
              st\<lparr>reads := reads st @ [(format, ''basic.'' @ extension_of format)]\<rparr>)"
  using assms by (subst loadTemplate.simps) simp

section \<open>The claims\<close>



text \<open>
  C5. The tag of a successful entry at input position \<open>i\<close> (counted from 0) is the display
  name of the parsed link (\<^verbatim>\<open>parsed.name || "Proxy Server"\<close>), then \<^verbatim>\<open>-\<close>, the number
  \<open>startIndex + i + 1\<close> in decimal, and the suffix \<^verbatim>\<open> [vortexVpn]\<close>. Every caller leaves
  \<open>startIndex\<close> at its default 0, so the number is the 1-based position in the whole
  input, whatever happened to the links before it.
\<close>

theorem tag_numbered_by_input_position:
  assumes "i < length links"
    and "entry_tag (processLinks P links startIndex ! i) = Some tag"
  shows "\<exists>parsed. parseAnyLink P (links ! i) = Inr parsed
           \<and> tag = toString (originalName parsed) @ ''-'' @ nat_to_string (startIndex + i + 1)
                   @ '' [vortexVpn]''"
proof -
  from assms have "entry_tag (process_link P startIndex i (links ! i)) = Some tag"
    by (simp add: processLinks_nth)
  then obtain parsed where "parseAnyLink P (links ! i) = Inr parsed"
    and "tag = configName parsed startIndex i"
    unfolding process_link_def convert_link_def and_then_def Let_def
    by (auto split: sum.splits prod.splits)
  then show ?thesis by (auto simp: configName_def)
qed

theorem tag_numbered_by_input_position_witness:
  "(1::nat) < length [''bad'', example_vless]
   \<and> entry_tag (processLinks node [''bad'', example_vless] 0 ! 1) = Some ''My Node-2 [vortexVpn]''
   \<and> (\<exists>parsed. parseAnyLink node ([''bad'', example_vless] ! 1) = Inr parsed
         \<and> ''My Node-2 [vortexVpn]''
             = toString (originalName parsed) @ ''-'' @ nat_to_string (0 + 1 + 1) @ '' [vortexVpn]'')"
proof -
  have h1: "(1::nat) < length [''bad'', example_vless]" by simp
  have h2: "entry_tag (processLinks node [''bad'', example_vless] 0 ! 1) = Some ''My Node-2 [vortexVpn]''"
    by code_simp
  from tag_numbered_by_input_position [OF h1 h2] h1 h2 show ?thesis by blast
qed









text \<open>
  C2, at a vmess link of the usual shape. \<^verbatim>\<open>parseVMess\<close> writes \<^verbatim>\<open>type\<close> twice in its
  object literal; the second value, \<^verbatim>\<open>obj.type || 'none'\<close> (the header type of the payload),
  is the one the record keeps (\<open>parseVMess_type\<close>). For the example the discriminant is
  \<^verbatim>\<open>none\<close>, not \<^verbatim>\<open>vmess\<close>, and batch naming passes it on unchanged. The other three
  parsers set their own scheme (\<open>parseVLESS_type\<close>, \<open>parseTrojan_type_port\<close>,
  \<open>parseSS_type\<close>).
\<close>

theorem vmess_record_type_is_not_vmess:
  "startsWith example_vmess ''vmess://''
   \<and> (case parseAnyLink node example_vmess of
         Inl e \<Rightarrow> False
       | Inr parsed \<Rightarrow>
           js_get parsed ''type'' = Str ''none''
           \<and> js_get (named_config parsed 0 0) ''type'' = Str ''none'')"
  by code_simp

text \<open>
  C1, at the same vmess link. The record holds the link's host and port, but its
  discriminant is \<^verbatim>\<open>none\<close>, so \<^verbatim>\<open>toClash\<close>, \<^verbatim>\<open>toSurge\<close> and \<^verbatim>\<open>toQuantumult\<close> throw
  (\<open>unknown_type_not_serialized\<close>) and the batch entry is a failure: no fragment is
  produced for the link. For the other three schemes the property holds on links of the
  usual shape, on every platform (\<open>shaped_link_fragments\<close>): the Surge and Quantumult
  lines hold the host and the port's digits, and the Clash mapping and the sing-box object
  hold them as \<^verbatim>\<open>server\<close> and \<^verbatim>\<open>port\<close> or \<^verbatim>\<open>server_port\<close>.
\<close>

theorem vmess_link_yields_no_fragments:
  "(case parseAnyLink node example_vmess of
      Inl e \<Rightarrow> False
    | Inr parsed \<Rightarrow>
        js_get parsed ''host'' = Str ''example.com''
        \<and> js_get parsed ''port'' = Num (Fin 443)
        \<and> toClash node (named_config parsed 0 0)
            = Inl (Error (''Tidak dapat mengkonversi protokol '' @ quote ''none''
                          @ '' ke format Clash.''))
        \<and> toSurge (named_config parsed 0 0) = Inl (Error ''Unsupported type for Surge: none'')
        \<and> toQuantumult (named_config parsed 0 0)
            = Inl (Error ''Unsupported type for Quantumult: none''))
   \<and> processLinks node [example_vmess] 0
       = [Failure (''Tidak dapat mengkonversi protokol '' @ quote ''none'' @ '' ke format Clash.'')
            example_vmess]"
  by code_simp

text \<open>
  C3, at a vless link whose port is \<^verbatim>\<open>abc\<close>. \<^verbatim>\<open>parseVLESS\<close> returns a record whose port
  is \<open>NaN\<close>; the serializers receive it and write \<^verbatim>\<open>NaN\<close> into their lines, and the batch
  entry is a success. \<^verbatim>\<open>parseTrojan\<close> is the one parser that tests \<^verbatim>\<open>isNaN(port)\<close> and
  throws (\<open>parseTrojan_type_port\<close>).
\<close>

theorem vless_unparseable_port_is_serialized:
  "(case parseAnyLink node example_vless_bad_port of
      Inl e \<Rightarrow> False
    | Inr parsed \<Rightarrow>
        js_get parsed ''port'' = Num NaN
        \<and> toSurge (named_config parsed 0 0)
            = Inr ''n-1 [vortexVpn] = vless, example.com, NaN, username=b831381d-6324-4d53-ad4f-8cda48b30811, skip-cert-verify=false, tls=true, sni=example.com''
        \<and> toQuantumult (named_config parsed 0 0)
            = Inr ''vmess=example.com:NaN, method=none, password=b831381d-6324-4d53-ad4f-8cda48b30811, skip-cert-verify=false, tls=true, sni=example.com, tag=n-1 [vortexVpn]'')
   \<and> is_success (processLinks node [example_vless_bad_port] 0 ! 0)
   \<and> parseAnyLink node ''trojan://secret@example.com:abc''
       = Inl (Error ''Invalid Trojan link format: Invalid port'')"
  by code_simp

text \<open>
  C8, at a vless link in \<^verbatim>\<open>reality\<close> mode without \<^verbatim>\<open>fp\<close>. \<^verbatim>\<open>toClash\<close> copies
  \<^verbatim>\<open>config.fp\<close>, the empty string, into \<^verbatim>\<open>client-fingerprint\<close>
  (\<open>clash_reality_client_fingerprint\<close>); \<^verbatim>\<open>toSingBox\<close> writes \<^verbatim>\<open>config.fp || "chrome"\<close>
  (\<open>singbox_reality_fingerprint\<close>). \<^verbatim>\<open>toSurge\<close> and \<^verbatim>\<open>toQuantumult\<close> write no fingerprint in
  \<^verbatim>\<open>reality\<close> mode.
\<close>

theorem clash_reality_fingerprint_is_empty:
  "(case parseAnyLink node example_vless of
      Inl e \<Rightarrow> False
    | Inr parsed \<Rightarrow>
        js_get parsed ''security'' = Str ''reality''
        \<and> js_get parsed ''fp'' = Str []
        \<and> (case clash_object (named_config parsed 0 0) of
              Inl e \<Rightarrow> False
            | Inr ob \<Rightarrow> js_get ob ''client-fingerprint'' = Str [])
        \<and> (case singbox_object (named_config parsed 0 0) of
              Inl e \<Rightarrow> False
            | Inr ob \<Rightarrow>
                val_get (val_get (js_get ob ''tls'') ''utls'') ''fingerprint'' = Str ''chrome''))"
  by code_simp

text \<open>
  C9, at a shadowsocks link whose user part \<^verbatim>\<open>!!!!\<close> holds no base64 character. The
  decoder returns the empty text instead of throwing, and the parser returns a record with
  the method \<^verbatim>\<open>''\<close> and the password \<^verbatim>\<open>undefined\<close>. On no link and no platform does
  \<^verbatim>\<open>parseSS\<close> report "Invalid Shadowsocks base64 encoding"
  (\<open>parseSS_never_reports_base64\<close>).
\<close>

theorem ss_bad_base64_is_parsed:
  "parseAnyLink node example_ss_not_base64
     = Inr (ss_record [] Undefined ''example.com'' (Fin 8388) [] [] [] [] ''SS'')"
  by code_simp

end
